theory Spec2Isabelle
  imports Complex_Main "HOL-Library.Char_ord" "HOL-Library.List_Lexorder"
begin

section \<open>Shared vocabulary\<close>

text \<open>
  The repository holds two templates of the same user-management API: a NestJS one on
  TypeORM and an Express one on Sequelize. Both are embedded here, function by function.
  Identifiers (UUIDs in the source) are natural numbers handed out by the table,
  timestamps (\<open>Date\<close> in the source) are natural numbers supplied by the caller as
  \<open>now\<close>, and the library calls whose result the repository does not compute
  (bcrypt, the JWT signature) are function parameters.
\<close>

type_synonym uuid = nat
type_synonym timestamp = nat

text \<open>\<open>Array.prototype.join\<close> and \<open>String.prototype.split\<close> on one separator.\<close>

fun join :: "string \<Rightarrow> string list \<Rightarrow> string" where
  "join sep [] = []"
| "join sep [x] = x"
| "join sep (x # y # ys) = x @ sep @ join sep (y # ys)"

fun split :: "char \<Rightarrow> string \<Rightarrow> string list" where
  "split c [] = [[]]"
| "split c (x # xs) =
     (if x = c then [] # split c xs
      else (case split c xs of [] \<Rightarrow> [[x]] | w # ws \<Rightarrow> (x # w) # ws))"

section \<open>NestJS template: exceptions\<close>

text \<open>
  What a handler, guard or pipe can throw. An \<open>HttpException\<close> carries its status and
  its response, which is a string or an object with a \<open>message\<close> (absent, a string, or
  the array of class-validator's messages or \<open>ValidationError\<close> objects, each with its
  property and maybe its constraints) and maybe an \<open>errors\<close> array. \<open>QueryFailedError\<close> is TypeORM's, \<open>Error\<close> is any other
  JavaScript error, \<open>Thrown\<close> is a thrown value that is not an \<open>Error\<close>.
\<close>

datatype validation_item = ItemString string | ItemObject string "string list option"

datatype error_item =
    ErrorString string
  | ErrorObject string "string list option"
  | ErrorField string "string list"

datatype message_field = MessageAbsent | MessageString string | MessageArray "validation_item list"

datatype exception_response =
    ResponseString string
  | ResponseObject message_field "error_item list option"

datatype exception =
    HttpException nat exception_response
  | QueryFailedError "string option" string
  | Error string "string option"
  | Thrown

text \<open>
  The built-in exceptions of \<open>@nestjs/common\<close> built from a message: the response is the
  object \<open>{message, error, statusCode}\<close>.
\<close>

definition BadRequestException :: "string \<Rightarrow> exception" where
  "BadRequestException m = HttpException 400 (ResponseObject (MessageString m) None)"

definition UnauthorizedException :: "string \<Rightarrow> exception" where
  "UnauthorizedException m = HttpException 401 (ResponseObject (MessageString m) None)"

definition ForbiddenException :: "string \<Rightarrow> exception" where
  "ForbiddenException m = HttpException 403 (ResponseObject (MessageString m) None)"

definition NotFoundException :: "string \<Rightarrow> exception" where
  "NotFoundException m = HttpException 404 (ResponseObject (MessageString m) None)"

definition ConflictException :: "string \<Rightarrow> exception" where
  "ConflictException m = HttpException 409 (ResponseObject (MessageString m) None)"

fun getStatus :: "exception \<Rightarrow> nat option" where
  "getStatus (HttpException st r) = Some st"
| "getStatus e = None"

section \<open>NestJS template: the user entity\<close>

datatype UserRole = ADMIN | USER | MANAGER

fun UserRole_value :: "UserRole \<Rightarrow> string" where
  "UserRole_value ADMIN = ''admin''"
| "UserRole_value USER = ''user''"
| "UserRole_value MANAGER = ''manager''"

text \<open>
  \<open>BaseEntity\<close> (id, createdAt, updatedAt, deletedAt, version) and \<open>User\<close>. The role
  column is \<open>character varying\<close> in the migration, so the row holds a string; that it is
  one of the enum's values is a property to prove, not a type.
\<close>

record User =
  user_id :: uuid
  createdAt :: timestamp
  updatedAt :: timestamp
  deletedAt :: "timestamp option"
  version :: nat
  firstName :: string
  lastName :: string
  email :: string
  password :: string
  role :: string
  isActive :: bool
  lastLoginAt :: "timestamp option"

section \<open>NestJS template: RolesGuard\<close>

text \<open>
  \<open>RolesGuard.canActivate\<close>. \<open>requiredRoles\<close> is the metadata the \<open>@Roles\<close> decorator
  attached (\<open>None\<close> when the route has none), \<open>user\<close> is \<open>request.user\<close>.
\<close>

definition canActivate :: "string list option \<Rightarrow> User option \<Rightarrow> exception + bool" where
  "canActivate requiredRoles user =
     (case requiredRoles of
        None \<Rightarrow> Inr True
      | Some rs \<Rightarrow>
          if length rs = 0 then Inr True
          else (case user of
                  None \<Rightarrow> Inl (ForbiddenException ''User not authenticated'')
                | Some u \<Rightarrow>
                    let hasRole = list_ex (\<lambda>r. role u = r) rs in
                    if \<not> hasRole
                    then Inl (ForbiddenException
                                (''Access denied. Required roles: '' @ join '', '' rs))
                    else Inr True))"

text \<open>
  The guard stage of Nest's request pipeline: the handler runs only after the guard
  returned true; a guard that throws hands its exception to the exception filter, and a
  guard that returns false is answered by Nest with its own 403. The second component
  counts the handler's invocations.
\<close>

definition guarded :: "(exception + bool) \<Rightarrow> 'r \<Rightarrow> (exception + 'r) \<times> nat" where
  "guarded guard handler =
     (case guard of
        Inl e \<Rightarrow> (Inl e, 0)
      | Inr ok \<Rightarrow> if ok then (Inr handler, 1) else (Inl (ForbiddenException ''Forbidden resource''), 0))"

section \<open>NestJS template: the users table behind \<open>Repository<User>\<close>\<close>

text \<open>
  The table is the list of its rows in insertion order, soft-deleted rows included, and
  the next identifier the database will generate. What TypeORM does with it is written
  out from the entity's declarations:
  \<^item> \<open>@DeleteDateColumn deletedAt\<close>: \<open>findOne\<close> and the query builder's \<open>getOne\<close> /
    \<open>getManyAndCount\<close> do not see rows whose \<open>deletedAt\<close> is set;
  \<^item> \<open>@Column({ unique: true }) email\<close>, \<open>CONSTRAINT UQ_users_email UNIQUE (email)\<close> in the
    migration: an INSERT or UPDATE that would give two rows of the table (soft-deleted
    or not) the same email fails with a \<open>QueryFailedError\<close>;
  \<^item> \<open>@UpdateDateColumn updatedAt\<close>, \<open>@VersionColumn version\<close>: every UPDATE TypeORM issues
    for a row, the one of a soft removal included, sets \<open>updatedAt\<close> to the current time
    and adds one to \<open>version\<close>;
  \<^item> the column defaults: \<open>role\<close> is \<open>user\<close>, \<open>isActive\<close> is true, \<open>version\<close> is 1.
\<close>

record Repository =
  rows :: "User list"
  next_id :: uuid

definition empty_Repository :: Repository where
  "empty_Repository = \<lparr>rows = [], next_id = 1\<rparr>"

definition findOne_where_email :: "Repository \<Rightarrow> string \<Rightarrow> User option" where
  "findOne_where_email repo e = find (\<lambda>u. deletedAt u = None \<and> email u = e) (rows repo)"

definition findOne_where_id :: "Repository \<Rightarrow> uuid \<Rightarrow> User option" where
  "findOne_where_id repo i = find (\<lambda>u. deletedAt u = None \<and> user_id u = i) (rows repo)"

definition unique_violation :: exception where
  "unique_violation =
     QueryFailedError (Some ''Key (email) already exists.'')
       ''duplicate key value violates unique constraint UQ_users_email''"

record CreateUserDto =
  c_firstName :: string
  c_lastName :: string
  c_email :: string
  c_password :: string
  c_role :: "string option"

text \<open>\<open>repository.save(repository.create(dto))\<close>: the INSERT of a new row.\<close>

definition save_new :: "timestamp \<Rightarrow> Repository \<Rightarrow> CreateUserDto \<Rightarrow> (exception + User) \<times> Repository" where
  "save_new now repo dto =
     (if list_ex (\<lambda>u. email u = c_email dto) (rows repo) then (Inl unique_violation, repo)
      else
        let user = \<lparr>user_id = next_id repo, createdAt = now, updatedAt = now, deletedAt = None,
                     version = 1, firstName = c_firstName dto, lastName = c_lastName dto,
                     email = c_email dto, password = c_password dto,
                     role = (case c_role dto of None \<Rightarrow> UserRole_value USER | Some r \<Rightarrow> r),
                     isActive = True, lastLoginAt = None\<rparr>
        in (Inr user, repo\<lparr>rows := rows repo @ [user], next_id := Suc (next_id repo)\<rparr>))"

text \<open>
  \<open>repository.save(user)\<close> for an entity loaded from the table and then changed: nothing
  is written when nothing changed; otherwise the UPDATE of the row with that id.
\<close>

definition save_loaded :: "timestamp \<Rightarrow> Repository \<Rightarrow> User \<Rightarrow> User \<Rightarrow> (exception + User) \<times> Repository" where
  "save_loaded now repo loaded user =
     (if user = loaded then (Inr user, repo)
      else if list_ex (\<lambda>u. user_id u \<noteq> user_id loaded \<and> email u = email user) (rows repo)
      then (Inl unique_violation, repo)
      else
        let saved = user\<lparr>updatedAt := now, version := version loaded + 1\<rparr>
        in (Inr saved,
            repo\<lparr>rows := map (\<lambda>u. if user_id u = user_id loaded then saved else u) (rows repo)\<rparr>))"

text \<open>\<open>repository.softRemove(user)\<close>: the UPDATE that sets \<open>deletedAt\<close>.\<close>

definition softRemove :: "timestamp \<Rightarrow> Repository \<Rightarrow> User \<Rightarrow> Repository" where
  "softRemove now repo user =
     repo\<lparr>rows := map (\<lambda>u. if user_id u = user_id user
                              then u\<lparr>deletedAt := Some now, updatedAt := now, version := version u + 1\<rparr>
                              else u) (rows repo)\<rparr>"

text \<open>\<open>repository.update(id, { lastLoginAt: new Date() })\<close>.\<close>

definition update_lastLoginAt :: "timestamp \<Rightarrow> Repository \<Rightarrow> uuid \<Rightarrow> Repository" where
  "update_lastLoginAt now repo i =
     repo\<lparr>rows := map (\<lambda>u. if user_id u = i
                              then u\<lparr>lastLoginAt := Some now, updatedAt := now, version := version u + 1\<rparr>
                              else u) (rows repo)\<rparr>"

section \<open>NestJS template: \<open>UsersService\<close>\<close>

text \<open>
  Every method takes the table and returns it with its result, so that what was written
  before an exception stays written. \<open>hash\<close> is \<open>bcrypt.hash(_, 10)\<close>.
\<close>

fun truthy :: "string option \<Rightarrow> bool" where
  "truthy None = False"
| "truthy (Some s) = (s \<noteq> [])"

definition digit :: "nat \<Rightarrow> char" where
  "digit n = ''0123456789'' ! n"

fun decimal :: "nat \<Rightarrow> string" where
  "decimal n = (if n < 10 then [digit n] else decimal (n div 10) @ [digit (n mod 10)])"

definition UsersService_create ::
  "(string \<Rightarrow> string) \<Rightarrow> timestamp \<Rightarrow> Repository \<Rightarrow> CreateUserDto \<Rightarrow> (exception + User) \<times> Repository" where
  "UsersService_create hash now repo createUserDto =
     (case findOne_where_email repo (c_email createUserDto) of
        Some existingUser \<Rightarrow> (Inl (ConflictException ''Email already exists''), repo)
      | None \<Rightarrow>
          let hashedPassword = hash (c_password createUserDto)
          in save_new now repo (createUserDto\<lparr>c_password := hashedPassword\<rparr>))"

definition UsersService_findOne :: "Repository \<Rightarrow> uuid \<Rightarrow> exception + User" where
  "UsersService_findOne repo i =
     (case findOne_where_id repo i of
        None \<Rightarrow> Inl (NotFoundException (''User with ID '' @ decimal i @ '' not found''))
      | Some user \<Rightarrow> Inr user)"

text \<open>\<open>findByEmail\<close>: the query builder's \<open>getOne\<close>, with the password column selected.\<close>

definition UsersService_findByEmail :: "Repository \<Rightarrow> string \<Rightarrow> User option" where
  "UsersService_findByEmail repo e = find (\<lambda>u. deletedAt u = None \<and> email u = e) (rows repo)"

record UpdateUserDto =
  u_firstName :: "string option"
  u_lastName :: "string option"
  u_email :: "string option"
  u_password :: "string option"
  u_role :: "string option"
  u_isActive :: "bool option"

text \<open>\<open>Object.assign(user, updateUserDto)\<close>: the properties the DTO has replace the user's.\<close>

definition Object_assign :: "User \<Rightarrow> UpdateUserDto \<Rightarrow> User" where
  "Object_assign user d =
     user\<lparr>firstName := (case u_firstName d of None \<Rightarrow> firstName user | Some v \<Rightarrow> v),
          lastName := (case u_lastName d of None \<Rightarrow> lastName user | Some v \<Rightarrow> v),
          email := (case u_email d of None \<Rightarrow> email user | Some v \<Rightarrow> v),
          password := (case u_password d of None \<Rightarrow> password user | Some v \<Rightarrow> v),
          role := (case u_role d of None \<Rightarrow> role user | Some v \<Rightarrow> v),
          isActive := (case u_isActive d of None \<Rightarrow> isActive user | Some v \<Rightarrow> v)\<rparr>"

definition UsersService_update ::
  "(string \<Rightarrow> string) \<Rightarrow> timestamp \<Rightarrow> Repository \<Rightarrow> uuid \<Rightarrow> UpdateUserDto \<Rightarrow> (exception + User) \<times> Repository" where
  "UsersService_update hash now repo i updateUserDto =
     (case UsersService_findOne repo i of
        Inl e \<Rightarrow> (Inl e, repo)
      | Inr user \<Rightarrow>
          if truthy (u_email updateUserDto) \<and> u_email updateUserDto \<noteq> Some (email user)
             \<and> (case u_email updateUserDto of
                   None \<Rightarrow> False
                 | Some e \<Rightarrow> findOne_where_email repo e \<noteq> None)
          then (Inl (ConflictException ''Email already exists''), repo)
          else
            let dto = (if truthy (u_password updateUserDto)
                       then updateUserDto\<lparr>u_password := map_option hash (u_password updateUserDto)\<rparr>
                       else updateUserDto)
            in save_loaded now repo user (Object_assign user dto))"

definition UsersService_remove :: "timestamp \<Rightarrow> Repository \<Rightarrow> uuid \<Rightarrow> (exception + unit) \<times> Repository" where
  "UsersService_remove now repo i =
     (case UsersService_findOne repo i of
        Inl e \<Rightarrow> (Inl e, repo)
      | Inr user \<Rightarrow> (Inr (), softRemove now repo user))"

definition UsersService_updateLastLogin :: "timestamp \<Rightarrow> Repository \<Rightarrow> uuid \<Rightarrow> Repository" where
  "UsersService_updateLastLogin now repo i = update_lastLoginAt now repo i"

section \<open>NestJS template: \<open>UsersService.findAll\<close>\<close>

text \<open>
  A JavaScript number as far as the pagination arithmetic needs it: an integer, or what
  a division by zero gives.
\<close>

datatype number = Num int | Infinity | NaN

fun less_number :: "number \<Rightarrow> number \<Rightarrow> bool" where
  "less_number (Num a) (Num b) = (a < b)"
| "less_number (Num a) Infinity = True"
| "less_number a b = False"

text \<open>\<open>Math.ceil(total / limit)\<close> for a count \<open>total\<close> and an integer \<open>limit\<close>.\<close>

definition Math_ceil_div :: "nat \<Rightarrow> int \<Rightarrow> number" where
  "Math_ceil_div total' limit' =
     (if limit' = 0 then (if total' = 0 then NaN else Infinity)
      else Num (- ((- int total') div limit')))"

record PaginationMeta =
  page :: int
  limit :: int
  total :: nat
  totalPages :: number
  hasNextPage :: bool
  hasPreviousPage :: bool

record QueryUserDto =
  q_page :: "int option"
  q_limit :: "int option"
  q_sortBy :: "string option"
  q_sortOrder :: "string option"
  q_role :: "string option"
  q_search :: "string option"

text \<open>
  \<open>ILIKE\<close>: \<open>%\<close> stands for any run of characters, \<open>_\<close> for any one character, a
  backslash takes the next pattern character literally, and letters match without
  regard to case.
\<close>

definition lower_char :: "char \<Rightarrow> char" where
  "lower_char c = (if CHR ''A'' \<le> c \<and> c \<le> CHR ''Z'' then char_of (of_char c + (32::nat)) else c)"

fun like :: "string \<Rightarrow> string \<Rightarrow> bool" where
  "like [] [] = True"
| "like [] (c # cs) = False"
| "like (p # ps) [] = (p = CHR ''%'' \<and> like ps [])"
| "like (p # ps) (c # cs) =
     (if p = CHR ''%'' then like ps (c # cs) \<or> like (p # ps) cs
      else if p = CHR ''_'' then like ps cs
      else if p = CHR 0x5C then (case ps of [] \<Rightarrow> False | q # qs \<Rightarrow> q = c \<and> like qs cs)
      else p = c \<and> like ps cs)"

definition ILIKE :: "string \<Rightarrow> string \<Rightarrow> bool" where
  "ILIKE text' pattern = like (map lower_char pattern) (map lower_char text')"

text \<open>
  \<open>ORDER BY user.<sortBy>\<close>: the order of a column of the entity, NULLs after every value;
  no order for a name that is not a column.
\<close>

definition nulls_last :: "timestamp option \<Rightarrow> timestamp option \<Rightarrow> bool" where
  "nulls_last a b =
     (case b of None \<Rightarrow> True | Some y \<Rightarrow> (case a of None \<Rightarrow> False | Some x \<Rightarrow> x \<le> y))"

definition column_order :: "string \<Rightarrow> (User \<Rightarrow> User \<Rightarrow> bool) option" where
  "column_order sortBy =
     (if sortBy = ''id'' then Some (\<lambda>a b. user_id a \<le> user_id b)
      else if sortBy = ''createdAt'' then Some (\<lambda>a b. createdAt a \<le> createdAt b)
      else if sortBy = ''updatedAt'' then Some (\<lambda>a b. updatedAt a \<le> updatedAt b)
      else if sortBy = ''deletedAt'' then Some (\<lambda>a b. nulls_last (deletedAt a) (deletedAt b))
      else if sortBy = ''version'' then Some (\<lambda>a b. version a \<le> version b)
      else if sortBy = ''firstName'' then Some (\<lambda>a b. firstName a \<le> firstName b)
      else if sortBy = ''lastName'' then Some (\<lambda>a b. lastName a \<le> lastName b)
      else if sortBy = ''email'' then Some (\<lambda>a b. email a \<le> email b)
      else if sortBy = ''password'' then Some (\<lambda>a b. password a \<le> password b)
      else if sortBy = ''role'' then Some (\<lambda>a b. role a \<le> role b)
      else if sortBy = ''isActive'' then Some (\<lambda>a b. isActive a \<le> isActive b)
      else if sortBy = ''lastLoginAt'' then Some (\<lambda>a b. nulls_last (lastLoginAt a) (lastLoginAt b))
      else None)"

fun insert_by :: "('a \<Rightarrow> 'a \<Rightarrow> bool) \<Rightarrow> 'a \<Rightarrow> 'a list \<Rightarrow> 'a list" where
  "insert_by le x [] = [x]"
| "insert_by le x (y # ys) = (if le x y then x # y # ys else y # insert_by le x ys)"

definition sort_by :: "('a \<Rightarrow> 'a \<Rightarrow> bool) \<Rightarrow> 'a list \<Rightarrow> 'a list" where
  "sort_by le xs = foldr (insert_by le) xs []"

definition order_by :: "string \<Rightarrow> string \<Rightarrow> User list \<Rightarrow> exception + User list" where
  "order_by sortBy sortOrder us =
     (case column_order sortBy of
        None \<Rightarrow> Inl (Error (sortBy @ '' is not a column of user'') None)
      | Some le \<Rightarrow>
          if sortOrder = ''ASC'' then Inr (sort_by le us)
          else if sortOrder = ''DESC'' then Inr (sort_by (\<lambda>a b. le b a) us)
          else Inl (Error (sortOrder @ '' is not a sort order'') None))"

text \<open>The offset \<open>findAll\<close> computes: \<open>const skip = (page - 1) * limit\<close>.\<close>

definition findAll_skip :: "int \<Rightarrow> int \<Rightarrow> int" where
  "findAll_skip page' limit' = (page' - 1) * limit'"

text \<open>
  \<open>findAll\<close>. The query builder's \<open>WHERE\<close>, \<open>ORDER BY\<close>, \<open>skip\<close> and \<open>take\<close>, then
  \<open>getManyAndCount\<close>: the page of rows and the number of rows the \<open>WHERE\<close> matched. The
  database refuses a negative \<open>OFFSET\<close> or \<open>LIMIT\<close>.
\<close>

definition where_clause :: "string option \<Rightarrow> string option \<Rightarrow> User \<Rightarrow> bool" where
  "where_clause role' search u =
     (deletedAt u = None
      \<and> (case role' of None \<Rightarrow> True | Some r \<Rightarrow> r = [] \<or> role u = r)
      \<and> (case search of
           None \<Rightarrow> True
         | Some s \<Rightarrow> s = [] \<or> ILIKE (firstName u) (''%'' @ s @ ''%'')
                         \<or> ILIKE (lastName u) (''%'' @ s @ ''%'')
                         \<or> ILIKE (email u) (''%'' @ s @ ''%'')))"

definition UsersService_findAll :: "Repository \<Rightarrow> QueryUserDto \<Rightarrow> exception + (User list \<times> PaginationMeta)" where
  "UsersService_findAll repo queryDto =
     (let page' = (case q_page queryDto of None \<Rightarrow> 1 | Some p \<Rightarrow> p);
          limit' = (case q_limit queryDto of None \<Rightarrow> 10 | Some l \<Rightarrow> l);
          sortBy = (case q_sortBy queryDto of None \<Rightarrow> ''createdAt'' | Some c \<Rightarrow> c);
          sortOrder = (case q_sortOrder queryDto of None \<Rightarrow> ''DESC'' | Some d \<Rightarrow> d);
          matching = filter (where_clause (q_role queryDto) (q_search queryDto)) (rows repo);
          skip = findAll_skip page' limit'
      in case order_by sortBy sortOrder matching of
           Inl e \<Rightarrow> Inl e
         | Inr ordered \<Rightarrow>
             if skip < 0 \<or> limit' < 0
             then Inl (QueryFailedError None ''OFFSET and LIMIT must not be negative'')
             else
               let data = take (nat limit') (drop (nat skip) ordered);
                   total' = length matching;
                   totalPages' = Math_ceil_div total' limit'
               in Inr (data,
                       \<lparr>page = page', limit = limit', total = total', totalPages = totalPages',
                        hasNextPage = less_number (Num page') totalPages',
                        hasPreviousPage = (page' > 1)\<rparr>))"

section \<open>NestJS template: response DTOs and JSON\<close>

text \<open>
  A JSON value as \<open>JSON.stringify\<close> sees it; \<open>JUndefined\<close> is JavaScript's \<open>undefined\<close>
  (a handler that returns nothing, a property that is not there).
\<close>

datatype json =
    JUndefined
  | JNull
  | JBool bool
  | JNumber int
  | JString string
  | JArray "json list"
  | JObject "(string \<times> json) list"





text \<open>Whether a key occurs anywhere in a JSON value, at any depth.\<close>

fun mentions :: "string \<Rightarrow> json \<Rightarrow> bool" where
  "mentions k (JArray xs) = list_ex (mentions k) xs"
| "mentions k (JObject kvs) = list_ex (\<lambda>kv. fst kv = k \<or> mentions k (snd kv)) kvs"
| "mentions k j = False"

definition json_of_time :: "timestamp option \<Rightarrow> json" where
  "json_of_time t = (case t of None \<Rightarrow> JNull | Some n \<Rightarrow> JNumber (int n))"

text \<open>
  \<open>UserResponseDto\<close> and \<open>plainToInstance(UserResponseDto, user, { excludeExtraneousValues:
  true })\<close>: the instance has the properties marked \<open>@Expose()\<close> and no other.
\<close>

record UserResponseDto =
  r_id :: uuid
  r_firstName :: string
  r_lastName :: string
  r_email :: string
  r_role :: string
  r_isActive :: bool
  r_lastLoginAt :: "timestamp option"
  r_createdAt :: timestamp
  r_updatedAt :: timestamp

definition plainToInstance :: "User \<Rightarrow> UserResponseDto" where
  "plainToInstance user =
     \<lparr>r_id = user_id user, r_firstName = firstName user, r_lastName = lastName user,
      r_email = email user, r_role = role user, r_isActive = isActive user,
      r_lastLoginAt = lastLoginAt user, r_createdAt = createdAt user,
      r_updatedAt = updatedAt user\<rparr>"

definition UserResponseDto_json :: "UserResponseDto \<Rightarrow> json" where
  "UserResponseDto_json d =
     JObject [(''id'', JNumber (int (r_id d))), (''firstName'', JString (r_firstName d)),
              (''lastName'', JString (r_lastName d)), (''email'', JString (r_email d)),
              (''role'', JString (r_role d)), (''isActive'', JBool (r_isActive d)),
              (''lastLoginAt'', json_of_time (r_lastLoginAt d)),
              (''createdAt'', JNumber (int (r_createdAt d))),
              (''updatedAt'', JNumber (int (r_updatedAt d)))]"

fun number_json :: "number \<Rightarrow> json" where
  "number_json (Num n) = JNumber n"
| "number_json v = JNull"

definition PaginationMeta_json :: "PaginationMeta \<Rightarrow> json" where
  "PaginationMeta_json p =
     JObject [(''page'', JNumber (page p)), (''limit'', JNumber (limit p)),
              (''total'', JNumber (int (total p))), (''totalPages'', number_json (totalPages p)),
              (''hasNextPage'', JBool (hasNextPage p)),
              (''hasPreviousPage'', JBool (hasPreviousPage p))]"

section \<open>NestJS template: \<open>AuthService\<close>\<close>

record JwtPayload =
  sub :: uuid
  jwt_email :: string
  jwt_role :: string

record AuthResponseDto =
  accessToken :: string
  tokenType :: string
  expiresIn :: string
  auth_user :: UserResponseDto

record LoginDto =
  l_email :: string
  l_password :: string

record RegisterDto =
  g_firstName :: string
  g_lastName :: string
  g_email :: string
  g_password :: string

text \<open>
  \<open>sign\<close> is \<open>jwtService.sign\<close>, \<open>expirationTime\<close> is what the configuration holds under
  \<open>jwt.expirationTime\<close>, \<open>compare\<close> is \<open>bcrypt.compare\<close>.
\<close>

definition generateAuthResponse :: "(JwtPayload \<Rightarrow> string) \<Rightarrow> string option \<Rightarrow> User \<Rightarrow> AuthResponseDto" where
  "generateAuthResponse sign expirationTime user =
     (let payload = \<lparr>sub = user_id user, jwt_email = email user, jwt_role = role user\<rparr>;
          accessToken' = sign payload;
          userResponse = plainToInstance user
      in \<lparr>accessToken = accessToken', tokenType = ''Bearer'',
          expiresIn = (case expirationTime of None \<Rightarrow> ''1d'' | Some t \<Rightarrow> if t = [] then ''1d'' else t),
          auth_user = userResponse\<rparr>)"

definition AuthService_login ::
  "(JwtPayload \<Rightarrow> string) \<Rightarrow> string option \<Rightarrow> (string \<Rightarrow> string \<Rightarrow> bool) \<Rightarrow> timestamp \<Rightarrow> Repository
     \<Rightarrow> LoginDto \<Rightarrow> (exception + AuthResponseDto) \<times> Repository" where
  "AuthService_login sign expirationTime compare now repo loginDto =
     (case UsersService_findByEmail repo (l_email loginDto) of
        None \<Rightarrow> (Inl (UnauthorizedException ''Invalid credentials''), repo)
      | Some user \<Rightarrow>
          if \<not> isActive user then (Inl (UnauthorizedException ''Account is deactivated''), repo)
          else
            let isPasswordValid = compare (l_password loginDto) (password user) in
            if \<not> isPasswordValid then (Inl (UnauthorizedException ''Invalid credentials''), repo)
            else
              let repo' = UsersService_updateLastLogin now repo (user_id user)
              in (Inr (generateAuthResponse sign expirationTime user), repo'))"

definition AuthService_register ::
  "(JwtPayload \<Rightarrow> string) \<Rightarrow> string option \<Rightarrow> (string \<Rightarrow> string) \<Rightarrow> timestamp \<Rightarrow> Repository
     \<Rightarrow> RegisterDto \<Rightarrow> (exception + AuthResponseDto) \<times> Repository" where
  "AuthService_register sign expirationTime hash now repo registerDto =
     (case UsersService_create hash now repo
             \<lparr>c_firstName = g_firstName registerDto, c_lastName = g_lastName registerDto,
              c_email = g_email registerDto, c_password = g_password registerDto, c_role = None\<rparr> of
        (Inl e, repo') \<Rightarrow> (Inl e, repo')
      | (Inr user, repo') \<Rightarrow>
          let repo'' = UsersService_updateLastLogin now repo' (user_id user)
          in (Inr (generateAuthResponse sign expirationTime user), repo''))"

definition AuthResponseDto_json :: "AuthResponseDto \<Rightarrow> json" where
  "AuthResponseDto_json a =
     JObject [(''accessToken'', JString (accessToken a)), (''tokenType'', JString (tokenType a)),
              (''expiresIn'', JString (expiresIn a)),
              (''user'', UserResponseDto_json (auth_user a))]"

section \<open>NestJS template: controllers\<close>

text \<open>What each handler returns, as the JSON value the response interceptor receives.\<close>

definition user_json :: "User \<Rightarrow> json" where
  "user_json user = UserResponseDto_json (plainToInstance user)"

definition UsersController_create ::
  "(string \<Rightarrow> string) \<Rightarrow> timestamp \<Rightarrow> Repository \<Rightarrow> CreateUserDto \<Rightarrow> (exception + json) \<times> Repository" where
  "UsersController_create hash now repo createUserDto =
     (case UsersService_create hash now repo createUserDto of
        (Inl e, repo') \<Rightarrow> (Inl e, repo')
      | (Inr user, repo') \<Rightarrow> (Inr (user_json user), repo'))"

definition UsersController_findAll :: "Repository \<Rightarrow> QueryUserDto \<Rightarrow> exception + json" where
  "UsersController_findAll repo queryDto =
     (case UsersService_findAll repo queryDto of
        Inl e \<Rightarrow> Inl e
      | Inr (data, pagination) \<Rightarrow>
          let users = map user_json data
          in Inr (JObject [(''data'', JArray users), (''pagination'', PaginationMeta_json pagination)]))"

definition UsersController_getProfile :: "User \<Rightarrow> json" where
  "UsersController_getProfile user = user_json user"

definition UsersController_findOne :: "Repository \<Rightarrow> uuid \<Rightarrow> exception + json" where
  "UsersController_findOne repo i =
     (case UsersService_findOne repo i of Inl e \<Rightarrow> Inl e | Inr user \<Rightarrow> Inr (user_json user))"

definition UsersController_update ::
  "(string \<Rightarrow> string) \<Rightarrow> timestamp \<Rightarrow> Repository \<Rightarrow> uuid \<Rightarrow> UpdateUserDto \<Rightarrow> (exception + json) \<times> Repository" where
  "UsersController_update hash now repo i updateUserDto =
     (case UsersService_update hash now repo i updateUserDto of
        (Inl e, repo') \<Rightarrow> (Inl e, repo')
      | (Inr user, repo') \<Rightarrow> (Inr (user_json user), repo'))"

definition UsersController_remove :: "timestamp \<Rightarrow> Repository \<Rightarrow> uuid \<Rightarrow> (exception + json) \<times> Repository" where
  "UsersController_remove now repo i =
     (case UsersService_remove now repo i of
        (Inl e, repo') \<Rightarrow> (Inl e, repo')
      | (Inr u, repo') \<Rightarrow> (Inr JUndefined, repo'))"

definition AuthController_register ::
  "(JwtPayload \<Rightarrow> string) \<Rightarrow> string option \<Rightarrow> (string \<Rightarrow> string) \<Rightarrow> timestamp \<Rightarrow> Repository
     \<Rightarrow> RegisterDto \<Rightarrow> (exception + json) \<times> Repository" where
  "AuthController_register sign expirationTime hash now repo registerDto =
     (case AuthService_register sign expirationTime hash now repo registerDto of
        (Inl e, repo') \<Rightarrow> (Inl e, repo')
      | (Inr a, repo') \<Rightarrow> (Inr (AuthResponseDto_json a), repo'))"

definition AuthController_login ::
  "(JwtPayload \<Rightarrow> string) \<Rightarrow> string option \<Rightarrow> (string \<Rightarrow> string \<Rightarrow> bool) \<Rightarrow> timestamp \<Rightarrow> Repository
     \<Rightarrow> LoginDto \<Rightarrow> (exception + json) \<times> Repository" where
  "AuthController_login sign expirationTime compare now repo loginDto =
     (case AuthService_login sign expirationTime compare now repo loginDto of
        (Inl e, repo') \<Rightarrow> (Inl e, repo')
      | (Inr a, repo') \<Rightarrow> (Inr (AuthResponseDto_json a), repo'))"

text \<open>
  The health handlers return what \<open>HealthCheckService.check\<close> resolves to: Terminus's
  \<open>{ status, info, error, details }\<close>.
\<close>

definition HealthController_check :: "string \<Rightarrow> json \<Rightarrow> json \<Rightarrow> json \<Rightarrow> json" where
  "HealthController_check status info error details =
     JObject [(''status'', JString status), (''info'', info), (''error'', error),
              (''details'', details)]"

section \<open>NestJS template: \<open>ResponseTransformInterceptor\<close>\<close>

definition upper_char :: "char \<Rightarrow> char" where
  "upper_char c = (if CHR ''a'' \<le> c \<and> c \<le> CHR ''z'' then char_of (of_char c - (32::nat)) else c)"







section \<open>NestJS template: \<open>HttpExceptionFilter\<close>\<close>









section \<open>NestJS template: DTO validation\<close>

text \<open>
  class-validator's decorators on the DTO classes, and the \<open>ValidationPipe\<close> that throws
  a 400 when a property fails. \<open>isEmail\<close> is the library's email test.
\<close>

definition IsEnum_UserRole :: "string \<Rightarrow> bool" where
  "IsEnum_UserRole v = (v \<in> set (map UserRole_value [ADMIN, USER, MANAGER]))"

definition MinLength :: "nat \<Rightarrow> string \<Rightarrow> bool" where
  "MinLength n v = (n \<le> length v)"

text \<open>One \<open>ValidationError\<close> for a property, when one of its constraints fails.\<close>

definition property_errors :: "string \<Rightarrow> (bool \<times> string) list \<Rightarrow> validation_item list" where
  "property_errors p checks =
     (let failed = map snd (filter (\<lambda>c. \<not> fst c) checks)
      in if failed = [] then [] else [ItemObject p (Some failed)])"

definition optional_errors :: "string \<Rightarrow> 'a option \<Rightarrow> ('a \<Rightarrow> (bool \<times> string) list) \<Rightarrow> validation_item list" where
  "optional_errors p v checks = (case v of None \<Rightarrow> [] | Some x \<Rightarrow> property_errors p (checks x))"

definition validate_CreateUserDto :: "(string \<Rightarrow> bool) \<Rightarrow> CreateUserDto \<Rightarrow> validation_item list" where
  "validate_CreateUserDto isEmail d =
     property_errors ''firstName'' [(MinLength 2 (c_firstName d), ''minLength'')]
     @ property_errors ''lastName'' [(MinLength 2 (c_lastName d), ''minLength'')]
     @ property_errors ''email'' [(isEmail (c_email d), ''isEmail'')]
     @ property_errors ''password'' [(MinLength 6 (c_password d), ''minLength'')]
     @ optional_errors ''role'' (c_role d) (\<lambda>r. [(IsEnum_UserRole r, ''isEnum'')])"

definition validate_UpdateUserDto :: "(string \<Rightarrow> bool) \<Rightarrow> UpdateUserDto \<Rightarrow> validation_item list" where
  "validate_UpdateUserDto isEmail d =
     optional_errors ''firstName'' (u_firstName d) (\<lambda>v. [(MinLength 2 v, ''minLength'')])
     @ optional_errors ''lastName'' (u_lastName d) (\<lambda>v. [(MinLength 2 v, ''minLength'')])
     @ optional_errors ''email'' (u_email d) (\<lambda>v. [(isEmail v, ''isEmail'')])
     @ optional_errors ''password'' (u_password d) (\<lambda>v. [(MinLength 6 v, ''minLength'')])
     @ optional_errors ''role'' (u_role d) (\<lambda>r. [(IsEnum_UserRole r, ''isEnum'')])"

definition validate_RegisterDto :: "(string \<Rightarrow> bool) \<Rightarrow> RegisterDto \<Rightarrow> validation_item list" where
  "validate_RegisterDto isEmail d =
     property_errors ''firstName'' [(MinLength 2 (g_firstName d), ''minLength'')]
     @ property_errors ''lastName'' [(MinLength 2 (g_lastName d), ''minLength'')]
     @ property_errors ''email'' [(isEmail (g_email d), ''isEmail'')]
     @ property_errors ''password'' [(MinLength 6 (g_password d), ''minLength'')]"

definition validate_LoginDto :: "(string \<Rightarrow> bool) \<Rightarrow> LoginDto \<Rightarrow> validation_item list" where
  "validate_LoginDto isEmail d =
     property_errors ''email'' [(isEmail (l_email d), ''isEmail'')]
     @ property_errors ''password'' [(MinLength 6 (l_password d), ''minLength'')]"

text \<open>
  The query string of \<open>GET /users\<close> after \<open>@Type(() => Number)\<close>: a number that is an
  integer, or one that is not (a fraction, \<open>NaN\<close>, an infinity).
\<close>

datatype query_number = Integer int | NotInteger

record QueryParams =
  p_page :: "query_number option"
  p_limit :: "query_number option"
  p_sortBy :: "string option"
  p_sortOrder :: "string option"
  p_role :: "string option"
  p_search :: "string option"

text \<open>\<open>@IsInt()\<close> and \<open>@Min(1)\<close>.\<close>

fun IsInt :: "query_number \<Rightarrow> bool" where
  "IsInt (Integer n) = True"
| "IsInt NotInteger = False"

fun MinValue :: "int \<Rightarrow> query_number \<Rightarrow> bool" where
  "MinValue m (Integer n) = (m \<le> n)"
| "MinValue m NotInteger = False"

definition validate_QueryUserDto :: "QueryParams \<Rightarrow> validation_item list" where
  "validate_QueryUserDto q =
     optional_errors ''page'' (p_page q) (\<lambda>v. [(IsInt v, ''isInt''), (MinValue 1 v, ''min'')])
     @ optional_errors ''limit'' (p_limit q) (\<lambda>v. [(IsInt v, ''isInt''), (MinValue 1 v, ''min'')])
     @ optional_errors ''role'' (p_role q) (\<lambda>r. [(IsEnum_UserRole r, ''isEnum'')])"

fun the_integer :: "query_number \<Rightarrow> int option" where
  "the_integer (Integer n) = Some n"
| "the_integer NotInteger = None"

text \<open>
  The instance the pipe hands to the handler: the class's initialisers (\<open>page = 1\<close>,
  \<open>limit = 10\<close>, \<open>sortBy = 'createdAt'\<close>, \<open>sortOrder = 'DESC'\<close>) where the query has no
  value, \<open>sortOrder\<close> in upper case.
\<close>

definition QueryUserDto_instance :: "QueryParams \<Rightarrow> QueryUserDto" where
  "QueryUserDto_instance q =
     \<lparr>q_page = (case p_page q of None \<Rightarrow> Some 1 | Some v \<Rightarrow> the_integer v),
      q_limit = (case p_limit q of None \<Rightarrow> Some 10 | Some v \<Rightarrow> the_integer v),
      q_sortBy = (case p_sortBy q of None \<Rightarrow> Some ''createdAt'' | Some c \<Rightarrow> Some c),
      q_sortOrder = (case p_sortOrder q of None \<Rightarrow> Some ''DESC'' | Some d \<Rightarrow> Some (map upper_char d)),
      q_role = p_role q, q_search = p_search q\<rparr>"

fun formatError :: "validation_item \<Rightarrow> error_item" where
  "formatError (ItemString s) = ErrorString s"
| "formatError (ItemObject p cs) = ErrorObject p cs"

definition ValidationPipe_transform :: "validation_item list \<Rightarrow> 'a \<Rightarrow> exception + 'a" where
  "ValidationPipe_transform errors object =
     (if length errors > 0
      then Inl (HttpException 400
                  (ResponseObject (MessageString ''Validation failed'') (Some (map formatError errors))))
      else Inr object)"

section \<open>NestJS template: the routes\<close>

datatype request =
    POST_users CreateUserDto
  | GET_users QueryParams
  | GET_users_me User
  | GET_users_id uuid
  | PUT_users uuid UpdateUserDto
  | DELETE_users uuid
  | POST_auth_register RegisterDto
  | POST_auth_login LoginDto
  | GET_health string json json json



text \<open>
  What the application needs from outside: the email test of class-validator, bcrypt's
  \<open>hash\<close> and \<open>compare\<close>, the JWT \<open>sign\<close>, and the configured expiration time.
\<close>

record environment =
  isEmail :: "string \<Rightarrow> bool"
  bcrypt_hash :: "string \<Rightarrow> string"
  bcrypt_compare :: "string \<Rightarrow> string \<Rightarrow> bool"
  jwt_sign :: "JwtPayload \<Rightarrow> string"
  jwt_expirationTime :: "string option"

text \<open>
  A request through the validation pipe and its handler. \<open>GET /users/me\<close> carries the
  user the JWT strategy attached to the request, \<open>GET /health\<close> what Terminus measured.
\<close>

fun route :: "environment \<Rightarrow> timestamp \<Rightarrow> Repository \<Rightarrow> request \<Rightarrow> (exception + json) \<times> Repository" where
  "route env now repo (POST_users dto) =
     (case ValidationPipe_transform (validate_CreateUserDto (isEmail env) dto) dto of
        Inl e \<Rightarrow> (Inl e, repo)
      | Inr d \<Rightarrow> UsersController_create (bcrypt_hash env) now repo d)"
| "route env now repo (GET_users q) =
     (case ValidationPipe_transform (validate_QueryUserDto q) (QueryUserDto_instance q) of
        Inl e \<Rightarrow> (Inl e, repo)
      | Inr d \<Rightarrow> (UsersController_findAll repo d, repo))"
| "route env now repo (GET_users_me user) = (Inr (UsersController_getProfile user), repo)"
| "route env now repo (GET_users_id i) = (UsersController_findOne repo i, repo)"
| "route env now repo (PUT_users i dto) =
     (case ValidationPipe_transform (validate_UpdateUserDto (isEmail env) dto) dto of
        Inl e \<Rightarrow> (Inl e, repo)
      | Inr d \<Rightarrow> UsersController_update (bcrypt_hash env) now repo i d)"
| "route env now repo (DELETE_users i) = UsersController_remove now repo i"
| "route env now repo (POST_auth_register dto) =
     (case ValidationPipe_transform (validate_RegisterDto (isEmail env) dto) dto of
        Inl e \<Rightarrow> (Inl e, repo)
      | Inr d \<Rightarrow>
          AuthController_register (jwt_sign env) (jwt_expirationTime env) (bcrypt_hash env) now repo d)"
| "route env now repo (POST_auth_login dto) =
     (case ValidationPipe_transform (validate_LoginDto (isEmail env) dto) dto of
        Inl e \<Rightarrow> (Inl e, repo)
      | Inr d \<Rightarrow>
          AuthController_login (jwt_sign env) (jwt_expirationTime env) (bcrypt_compare env) now repo d)"
| "route env now repo (GET_health status info error details) =
     (Inr (HealthController_check status info error details), repo)"


text \<open>The table after a sequence of requests, each with the time it arrives.\<close>

fun serve :: "environment \<Rightarrow> Repository \<Rightarrow> (timestamp \<times> request) list \<Rightarrow> Repository" where
  "serve env repo [] = repo"
| "serve env repo ((now, req) # rest) = serve env (snd (route env now repo req)) rest"

text \<open>The service's writing methods, called directly in any order.\<close>

datatype operation =
    Create CreateUserDto
  | Update uuid UpdateUserDto
  | Remove uuid
  | UpdateLastLogin uuid

fun perform :: "(string \<Rightarrow> string) \<Rightarrow> timestamp \<Rightarrow> Repository \<Rightarrow> operation \<Rightarrow> Repository" where
  "perform hash now repo (Create dto) = snd (UsersService_create hash now repo dto)"
| "perform hash now repo (Update i dto) = snd (UsersService_update hash now repo i dto)"
| "perform hash now repo (Remove i) = snd (UsersService_remove now repo i)"
| "perform hash now repo (UpdateLastLogin i) = UsersService_updateLastLogin now repo i"


section \<open>Express template: the user model\<close>

text \<open>
  \<open>BaseModel\<close> (id, createdAt, updatedAt, deletedAt) and the Sequelize \<open>User\<close> model. The
  table is \<open>paranoid\<close>: finders do not see rows whose \<open>deletedAt\<close> is set, and
  \<open>destroy()\<close> sets \<open>deletedAt\<close> through a save, which refreshes \<open>updatedAt\<close> as every
  save of a model with \<open>timestamps: true\<close> does. The email column is \<open>unique\<close>: an INSERT
  or UPDATE that would give two rows the same email fails with a
  \<open>SequelizeUniqueConstraintError\<close>. The model validates \<open>isEmail\<close> before it writes.
\<close>

record SeqUser =
  x_id :: uuid
  x_createdAt :: timestamp
  x_updatedAt :: timestamp
  x_deletedAt :: "timestamp option"
  x_email :: string
  x_password :: string
  x_firstName :: string
  x_lastName :: string
  x_isActive :: bool
  x_role :: string

record Table =
  x_rows :: "SeqUser list"
  x_next_id :: uuid

definition empty_Table :: Table where
  "empty_Table = \<lparr>x_rows = [], x_next_id = 1\<rparr>"

datatype sequelize_error =
    SequelizeUniqueConstraintError
  | SequelizeValidationError
  | SequelizeDatabaseError

definition findByPk :: "Table \<Rightarrow> uuid \<Rightarrow> SeqUser option" where
  "findByPk tbl i = find (\<lambda>u. x_deletedAt u = None \<and> x_id u = i) (x_rows tbl)"

definition User_findOne_where_email :: "Table \<Rightarrow> string \<Rightarrow> SeqUser option" where
  "User_findOne_where_email tbl e = find (\<lambda>u. x_deletedAt u = None \<and> x_email u = e) (x_rows tbl)"

record XCreateUserDto =
  xc_email :: string
  xc_password :: string
  xc_firstName :: string
  xc_lastName :: string

record XUpdateUserDto =
  xu_email :: "string option"
  xu_password :: "string option"
  xu_firstName :: "string option"
  xu_lastName :: "string option"
  xu_isActive :: "bool option"

text \<open>\<open>User.create({ email, password, firstName, lastName })\<close>.\<close>

definition User_create ::
  "(string \<Rightarrow> bool) \<Rightarrow> timestamp \<Rightarrow> Table \<Rightarrow> XCreateUserDto \<Rightarrow> (sequelize_error + SeqUser) \<times> Table" where
  "User_create isEmail' now tbl data =
     (if \<not> isEmail' (xc_email data) then (Inl SequelizeValidationError, tbl)
      else if list_ex (\<lambda>u. x_email u = xc_email data) (x_rows tbl)
      then (Inl SequelizeUniqueConstraintError, tbl)
      else
        let user = \<lparr>x_id = x_next_id tbl, x_createdAt = now, x_updatedAt = now, x_deletedAt = None,
                     x_email = xc_email data, x_password = xc_password data,
                     x_firstName = xc_firstName data, x_lastName = xc_lastName data,
                     x_isActive = True, x_role = ''user''\<rparr>
        in (Inr user, tbl\<lparr>x_rows := x_rows tbl @ [user], x_next_id := Suc (x_next_id tbl)\<rparr>))"

text \<open>\<open>user.update(data)\<close> on an instance loaded from the table.\<close>

definition set_values :: "SeqUser \<Rightarrow> XUpdateUserDto \<Rightarrow> SeqUser" where
  "set_values user d =
     user\<lparr>x_email := (case xu_email d of None \<Rightarrow> x_email user | Some v \<Rightarrow> v),
          x_password := (case xu_password d of None \<Rightarrow> x_password user | Some v \<Rightarrow> v),
          x_firstName := (case xu_firstName d of None \<Rightarrow> x_firstName user | Some v \<Rightarrow> v),
          x_lastName := (case xu_lastName d of None \<Rightarrow> x_lastName user | Some v \<Rightarrow> v),
          x_isActive := (case xu_isActive d of None \<Rightarrow> x_isActive user | Some v \<Rightarrow> v)\<rparr>"

definition User_update ::
  "(string \<Rightarrow> bool) \<Rightarrow> timestamp \<Rightarrow> Table \<Rightarrow> SeqUser \<Rightarrow> XUpdateUserDto \<Rightarrow> (sequelize_error + SeqUser) \<times> Table" where
  "User_update isEmail' now tbl user data =
     (let changed = set_values user data in
      if changed = user then (Inr user, tbl)
      else if x_email changed \<noteq> x_email user \<and> \<not> isEmail' (x_email changed)
      then (Inl SequelizeValidationError, tbl)
      else if list_ex (\<lambda>u. x_id u \<noteq> x_id user \<and> x_email u = x_email changed) (x_rows tbl)
      then (Inl SequelizeUniqueConstraintError, tbl)
      else
        let saved = changed\<lparr>x_updatedAt := now\<rparr>
        in (Inr saved,
            tbl\<lparr>x_rows := map (\<lambda>u. if x_id u = x_id user then saved else u) (x_rows tbl)\<rparr>))"

text \<open>\<open>user.destroy()\<close> on the paranoid model, and \<open>user.destroy({ force: true })\<close>.\<close>

definition User_destroy :: "timestamp \<Rightarrow> Table \<Rightarrow> SeqUser \<Rightarrow> Table" where
  "User_destroy now tbl user =
     tbl\<lparr>x_rows := map (\<lambda>u. if x_id u = x_id user
                               then u\<lparr>x_deletedAt := Some now, x_updatedAt := now\<rparr>
                               else u) (x_rows tbl)\<rparr>"

definition User_destroy_force :: "Table \<Rightarrow> SeqUser \<Rightarrow> Table" where
  "User_destroy_force tbl user = tbl\<lparr>x_rows := filter (\<lambda>u. x_id u \<noteq> x_id user) (x_rows tbl)\<rparr>"

section \<open>Express template: errors\<close>

text \<open>
  \<open>AppError\<close> and its subclasses \<open>ValidationError\<close> (400), \<open>NotFoundError\<close> (404) and
  \<open>DatabaseError\<close> (500); \<open>PlainError\<close> is an \<open>Error\<close> that is not an \<open>AppError\<close>.
\<close>

datatype ValidationErrorDetail = Detail string "string list"

datatype error_class =
    AppError_class
  | ValidationError_class "ValidationErrorDetail list"
  | NotFoundError_class
  | DatabaseError_class

datatype js_error =
    AppError_of error_class string nat
  | PlainError string

definition AppError :: "string \<Rightarrow> nat \<Rightarrow> js_error" where
  "AppError message statusCode = AppError_of AppError_class message statusCode"

definition ValidationError :: "string \<Rightarrow> ValidationErrorDetail list \<Rightarrow> js_error" where
  "ValidationError message errors = AppError_of (ValidationError_class errors) message 400"

definition NotFoundError :: "string \<Rightarrow> uuid \<Rightarrow> js_error" where
  "NotFoundError resource identifier =
     AppError_of NotFoundError_class
       (resource @ '' with identifier '' @ [CHR 0x27] @ decimal identifier @ [CHR 0x27] @ '' not found'')
       404"

definition DatabaseError :: "string \<Rightarrow> js_error" where
  "DatabaseError message = AppError_of DatabaseError_class message 500"

section \<open>Express template: \<open>UserRepository\<close>\<close>

definition UserRepository_create ::
  "(string \<Rightarrow> bool) \<Rightarrow> timestamp \<Rightarrow> Table \<Rightarrow> XCreateUserDto \<Rightarrow> (js_error + SeqUser) \<times> Table" where
  "UserRepository_create isEmail' now tbl data =
     (case User_create isEmail' now tbl data of
        (Inr user, tbl') \<Rightarrow> (Inr user, tbl')
      | (Inl error, tbl') \<Rightarrow>
          if error = SequelizeUniqueConstraintError
          then (Inl (DatabaseError ''Email already exists''), tbl')
          else (Inl (DatabaseError ''Failed to create user''), tbl'))"

definition UserRepository_findById :: "Table \<Rightarrow> uuid \<Rightarrow> js_error + SeqUser" where
  "UserRepository_findById tbl i =
     (case findByPk tbl i of None \<Rightarrow> Inl (NotFoundError ''User'' i) | Some user \<Rightarrow> Inr user)"

definition UserRepository_findByEmail :: "Table \<Rightarrow> string \<Rightarrow> SeqUser option" where
  "UserRepository_findByEmail tbl e = User_findOne_where_email tbl e"





definition UserRepository_update ::
  "(string \<Rightarrow> bool) \<Rightarrow> timestamp \<Rightarrow> Table \<Rightarrow> uuid \<Rightarrow> XUpdateUserDto \<Rightarrow> (js_error + SeqUser) \<times> Table" where
  "UserRepository_update isEmail' now tbl i data =
     (case UserRepository_findById tbl i of
        Inl notFound \<Rightarrow> (Inl notFound, tbl)
      | Inr user \<Rightarrow>
          (case User_update isEmail' now tbl user data of
             (Inr saved, tbl') \<Rightarrow> (Inr saved, tbl')
           | (Inl error, tbl') \<Rightarrow>
               if error = SequelizeUniqueConstraintError
               then (Inl (DatabaseError ''Email already exists''), tbl')
               else (Inl (DatabaseError ''Failed to update user''), tbl')))"

definition UserRepository_delete :: "timestamp \<Rightarrow> Table \<Rightarrow> uuid \<Rightarrow> (js_error + unit) \<times> Table" where
  "UserRepository_delete now tbl i =
     (case UserRepository_findById tbl i of
        Inl notFound \<Rightarrow> (Inl notFound, tbl)
      | Inr user \<Rightarrow> (Inr (), User_destroy now tbl user))"

definition UserRepository_hardDelete :: "Table \<Rightarrow> uuid \<Rightarrow> (js_error + unit) \<times> Table" where
  "UserRepository_hardDelete tbl i =
     (case UserRepository_findById tbl i of
        Inl notFound \<Rightarrow> (Inl notFound, tbl)
      | Inr user \<Rightarrow> (Inr (), User_destroy_force tbl user))"

section \<open>Express template: \<open>UserService\<close>\<close>

definition UserService_createUser ::
  "(string \<Rightarrow> bool) \<Rightarrow> timestamp \<Rightarrow> Table \<Rightarrow> XCreateUserDto \<Rightarrow> (js_error + SeqUser) \<times> Table" where
  "UserService_createUser isEmail' now tbl data =
     (case UserRepository_findByEmail tbl (xc_email data) of
        Some existingUser \<Rightarrow> (Inl (AppError ''User with this email already exists'' 409), tbl)
      | None \<Rightarrow> UserRepository_create isEmail' now tbl data)"





definition UserService_updateUser ::
  "(string \<Rightarrow> bool) \<Rightarrow> timestamp \<Rightarrow> Table \<Rightarrow> uuid \<Rightarrow> XUpdateUserDto \<Rightarrow> (js_error + SeqUser) \<times> Table" where
  "UserService_updateUser isEmail' now tbl i data =
     (if truthy (xu_email data)
         \<and> (case xu_email data of
               None \<Rightarrow> False
             | Some e \<Rightarrow> (case UserRepository_findByEmail tbl e of
                            None \<Rightarrow> False
                          | Some existingUser \<Rightarrow> x_id existingUser \<noteq> i))
      then (Inl (AppError ''Email already in use by another user'' 409), tbl)
      else UserRepository_update isEmail' now tbl i data)"

definition UserService_deleteUser :: "timestamp \<Rightarrow> Table \<Rightarrow> uuid \<Rightarrow> (js_error + unit) \<times> Table" where
  "UserService_deleteUser now tbl i = UserRepository_delete now tbl i"

text \<open>The service's writing methods, called in any order.\<close>

datatype x_operation =
    CreateUser XCreateUserDto
  | UpdateUser uuid XUpdateUserDto
  | DeleteUser uuid

fun x_perform :: "(string \<Rightarrow> bool) \<Rightarrow> timestamp \<Rightarrow> Table \<Rightarrow> x_operation \<Rightarrow> Table" where
  "x_perform isEmail' now tbl (CreateUser data) = snd (UserService_createUser isEmail' now tbl data)"
| "x_perform isEmail' now tbl (UpdateUser i data) = snd (UserService_updateUser isEmail' now tbl i data)"
| "x_perform isEmail' now tbl (DeleteUser i) = snd (UserService_deleteUser now tbl i)"

fun x_perform_all :: "(string \<Rightarrow> bool) \<Rightarrow> Table \<Rightarrow> (timestamp \<times> x_operation) list \<Rightarrow> Table" where
  "x_perform_all isEmail' tbl [] = tbl"
| "x_perform_all isEmail' tbl ((now, op) # rest) =
     x_perform_all isEmail' (x_perform isEmail' now tbl op) rest"

section \<open>Express template: the role middleware\<close>

record TokenPayload =
  tp_id :: uuid
  tp_role :: string

text \<open>
  What a middleware does with a request: answer it (status, success flag, message), or
  call \<open>next()\<close> with what it attached to the request (\<open>req.user\<close>, \<open>req.state.user\<close>).
\<close>

datatype middleware_result =
    Respond nat bool string
  | Next TokenPayload "SeqUser option"

text \<open>
  \<open>roleRequired(role)\<close>. \<open>validateUserToken\<close> is \<open>jwtService.validateUserToken\<close>
  (the signature check of the JWT library; \<open>None\<close> for a token it refuses).
\<close>

definition roleRequired ::
  "string \<Rightarrow> (string \<Rightarrow> TokenPayload option) \<Rightarrow> Table \<Rightarrow> string option \<Rightarrow> middleware_result" where
  "roleRequired role' validateUserToken tbl authorization =
     (case authorization of
        None \<Rightarrow> Respond 401 False ''Auth Token is missing or invalid''
      | Some authHeader \<Rightarrow>
          if authHeader = [] then Respond 401 False ''Auth Token is missing or invalid''
          else
            let parts = split CHR '' '' authHeader in
            if length parts \<noteq> 2 \<or> parts ! 0 \<noteq> ''Bearer''
            then Respond 401 False ''Auth Token is missing or invalid''
            else
              (case validateUserToken (parts ! 1) of
                 None \<Rightarrow> Respond 401 False ''Auth Token is missing or invalid''
               | Some tokenData \<Rightarrow>
                   (case findByPk tbl (tp_id tokenData) of
                      None \<Rightarrow> Respond 403 False ''You are not authorized to perform this action.''
                    | Some user \<Rightarrow>
                        if x_role user \<noteq> role'
                        then Respond 403 False ''You are not authorized to perform this action.''
                        else Next tokenData (Some user))))"

section \<open>Express template: JSON of a user\<close>

text \<open>
  \<open>this.get()\<close> gives every column; \<open>BaseModel.toJSON\<close> drops \<open>deletedAt\<close> when it is
  null; \<open>User.toJSON\<close> then deletes \<open>password\<close>. \<open>res.json\<close> serialises a model through
  its \<open>toJSON\<close>.
\<close>

definition Model_get :: "SeqUser \<Rightarrow> (string \<times> json) list" where
  "Model_get u =
     [(''id'', JNumber (int (x_id u))), (''email'', JString (x_email u)),
      (''password'', JString (x_password u)), (''firstName'', JString (x_firstName u)),
      (''lastName'', JString (x_lastName u)), (''isActive'', JBool (x_isActive u)),
      (''role'', JString (x_role u)), (''createdAt'', JNumber (int (x_createdAt u))),
      (''updatedAt'', JNumber (int (x_updatedAt u))), (''deletedAt'', json_of_time (x_deletedAt u))]"

definition delete_property :: "string \<Rightarrow> (string \<times> json) list \<Rightarrow> (string \<times> json) list" where
  "delete_property k values = filter (\<lambda>kv. fst kv \<noteq> k) values"

definition BaseModel_toJSON :: "SeqUser \<Rightarrow> (string \<times> json) list" where
  "BaseModel_toJSON u =
     (let values = Model_get u
      in if map_of values ''deletedAt'' = Some JNull then delete_property ''deletedAt'' values
         else values)"

definition User_toJSON :: "SeqUser \<Rightarrow> json" where
  "User_toJSON u = (let values = BaseModel_toJSON u in JObject (delete_property ''password'' values))"

section \<open>Express template: response formatters\<close>






section \<open>Express template: \<open>errorHandler\<close>\<close>



section \<open>Express template: \<open>UserController\<close> and the routes of \<open>app.ts\<close>\<close>






record UserQueryDto =
  uq_page :: "string option"
  uq_pageSize :: "string option"
  uq_search :: "string option"








definition role_route :: "string \<Rightarrow> SeqUser option \<Rightarrow> json" where
  "role_route message user =
     JObject [(''success'', JBool True), (''message'', JString message),
              (''user'', (case user of None \<Rightarrow> JUndefined | Some u \<Rightarrow> User_toJSON u))]"

section \<open>Sample data\<close>

text \<open>Concrete users, tables and library stand-ins on which the theorems are exercised.\<close>

definition ann :: User where
  "ann = \<lparr>user_id = 1, createdAt = 10, updatedAt = 10, deletedAt = None, version = 1,
           firstName = ''Ann'', lastName = ''Lee'', email = ''ann@example.com'',
           password = ''#secret1'', role = ''user'', isActive = True, lastLoginAt = None\<rparr>"

definition bob :: User where
  "bob = \<lparr>user_id = 2, createdAt = 20, updatedAt = 20, deletedAt = None, version = 1,
           firstName = ''Bob'', lastName = ''Ray'', email = ''bob@example.com'',
           password = ''#secret2'', role = ''admin'', isActive = True, lastLoginAt = None\<rparr>"

definition two_users :: Repository where
  "two_users = \<lparr>rows = [ann, bob], next_id = 3\<rparr>"

definition x_ann :: SeqUser where
  "x_ann = \<lparr>x_id = 1, x_createdAt = 10, x_updatedAt = 10, x_deletedAt = None,
             x_email = ''ann@example.com'', x_password = ''secret1'', x_firstName = ''Ann'',
             x_lastName = ''Lee'', x_isActive = True, x_role = ''user''\<rparr>"

definition x_bob :: SeqUser where
  "x_bob = \<lparr>x_id = 2, x_createdAt = 20, x_updatedAt = 20, x_deletedAt = None,
             x_email = ''bob@example.com'', x_password = ''secret2'', x_firstName = ''Bob'',
             x_lastName = ''Ray'', x_isActive = True, x_role = ''admin''\<rparr>"

definition x_two_users :: Table where
  "x_two_users = \<lparr>x_rows = [x_ann, x_bob], x_next_id = 3\<rparr>"

text \<open>A token check that accepts the token \<open>t1\<close> as user 1's.\<close>

definition accept_t1 :: "string \<Rightarrow> TokenPayload option" where
  "accept_t1 t = (if t = ''t1'' then Some \<lparr>tp_id = 1, tp_role = ''user''\<rparr> else None)"

section \<open>Well-formed tables\<close>

text \<open>
  What the database guarantees of the users table at any time: emails are pairwise
  distinct (the unique constraint), identifiers are pairwise distinct (the primary key)
  and were all generated already.
\<close>

definition consistent :: "Repository \<Rightarrow> bool" where
  "consistent repo =
     (distinct (map email (rows repo)) \<and> distinct (map user_id (rows repo))
      \<and> list_all (\<lambda>u. user_id u < next_id repo) (rows repo))"


fun statusCode :: "js_error \<Rightarrow> nat option" where
  "statusCode (AppError_of cls m st) = Some st"
| "statusCode (PlainError m) = None"




definition x_ann_again :: XCreateUserDto where
  "x_ann_again = \<lparr>xc_email = ''ann@example.com'', xc_password = ''secret9'',
                   xc_firstName = ''Ann'', xc_lastName = ''Lee''\<rparr>"

definition cy :: CreateUserDto where
  "cy = \<lparr>c_firstName = ''Cy'', c_lastName = ''Fox'', c_email = ''cy@example.com'',
          c_password = ''secret3'', c_role = None\<rparr>"

definition x_cy :: XCreateUserDto where
  "x_cy = \<lparr>xc_email = ''cy@example.com'', xc_password = ''secret3'', xc_firstName = ''Cy'',
            xc_lastName = ''Fox''\<rparr>"

text \<open>Stand-ins for bcrypt, the JWT signature and the email test.\<close>

definition toy_hash :: "string \<Rightarrow> string" where
  "toy_hash p = CHR ''#'' # p"

definition toy_compare :: "string \<Rightarrow> string \<Rightarrow> bool" where
  "toy_compare p h = (h = toy_hash p)"

definition toy_sign :: "JwtPayload \<Rightarrow> string" where
  "toy_sign p = ''jwt.'' @ decimal (sub p) @ ''.'' @ jwt_role p"

definition toy_isEmail :: "string \<Rightarrow> bool" where
  "toy_isEmail e = (CHR ''@'' \<in> set e)"


definition x_take_anns_email :: XUpdateUserDto where
  "x_take_anns_email = \<lparr>xu_email = Some ''ann@example.com'', xu_password = None,
                         xu_firstName = None, xu_lastName = None, xu_isActive = None\<rparr>"


definition x_busy_day :: "(timestamp \<times> x_operation) list" where
  "x_busy_day = [(40, CreateUser x_cy), (41, DeleteUser 1), (42, CreateUser x_ann_again),
                 (43, UpdateUser 2 x_take_anns_email)]"

definition ann_login :: LoginDto where
  "ann_login = \<lparr>l_email = ''ann@example.com'', l_password = ''secret1''\<rparr>"


definition toy_environment :: environment where
  "toy_environment = \<lparr>isEmail = toy_isEmail, bcrypt_hash = toy_hash, bcrypt_compare = toy_compare,
                       jwt_sign = toy_sign, jwt_expirationTime = None\<rparr>"


definition no_query :: UserQueryDto where
  "no_query = \<lparr>uq_page = None, uq_pageSize = None, uq_search = None\<rparr>"

text \<open>Every stored role is a value of the enum.\<close>

definition roles_valid :: "Repository \<Rightarrow> bool" where
  "roles_valid repo = list_all (\<lambda>u. IsEnum_UserRole (role u)) (rows repo)"

definition x_roles_valid :: "Table \<Rightarrow> bool" where
  "x_roles_valid tbl = list_all (\<lambda>u. x_role u \<in> set [''admin'', ''user'']) (x_rows tbl)"

definition promote_bob :: UpdateUserDto where
  "promote_bob = \<lparr>u_firstName = None, u_lastName = None, u_email = None, u_password = None,
                   u_role = Some ''manager'', u_isActive = None\<rparr>"

definition cy_registers :: RegisterDto where
  "cy_registers = \<lparr>g_firstName = ''Cy'', g_lastName = ''Fox'', g_email = ''cy@example.com'',
                    g_password = ''secret3''\<rparr>"

definition busy_api_day :: "(timestamp \<times> request) list" where
  "busy_api_day = [(40, POST_auth_register cy_registers), (41, PUT_users 2 promote_bob),
                   (42, DELETE_users 1), (43, POST_users (cy\<lparr>c_role := Some ''root''\<rparr>))]"

section \<open>Lists\<close>




lemma find_Some_set: "find P xs = Some x \<Longrightarrow> P x \<and> x \<in> set xs"
  by (induction xs) (auto split: if_splits)


section \<open>Role-gated access\<close>

lemma canActivate_cases:
  "canActivate rs u = Inr True \<or> (\<exists>m. canActivate rs u = Inl (ForbiddenException m))"
  by (auto simp: canActivate_def Let_def split: option.splits)

lemma canActivate_permits:
  "canActivate rs u = Inr True \<longleftrightarrow>
     (case rs of None \<Rightarrow> True
      | Some l \<Rightarrow> l = [] \<or> (case u of None \<Rightarrow> False | Some usr \<Rightarrow> role usr \<in> set l))"
  by (auto simp: canActivate_def Let_def list_ex_iff split: option.splits)

lemma split_not_Nil: "split c s \<noteq> []"
  by (induction s) (auto split: list.splits)

lemma join_split: "join [c] (split c s) = s"
proof (induction s)
  case Nil
  show ?case by simp
next
  case (Cons x xs)
  obtain w ws where sp: "split c xs = w # ws"
    using split_not_Nil [of c xs] by (cases "split c xs") auto
  show ?case
  proof (cases "x = c")
    case True
    with Cons sp show ?thesis by simp
  next
    case False
    with Cons sp show ?thesis by (cases ws) auto
  qed
qed

lemma split_parts_no_sep: "w \<in> set (split c s) \<Longrightarrow> c \<notin> set w"
proof (induction s arbitrary: w)
  case Nil
  then show ?case by simp
next
  case (Cons x xs)
  obtain v vs where sp: "split c xs = v # vs"
    using split_not_Nil [of c xs] by (cases "split c xs") auto
  from Cons sp show ?case by (auto split: if_splits)
qed

lemma split_no_sep: "c \<notin> set s \<Longrightarrow> split c s = [s]"
  by (induction s) auto

lemma split_prefix: "c \<notin> set a \<Longrightarrow> split c (a @ c # b) = a # split c b"
  by (induction a) auto

lemma split_Bearer:
  "CHR '' '' \<notin> set tok \<Longrightarrow> split CHR '' '' (''Bearer '' @ tok) = [''Bearer'', tok]"
  using split_prefix [of "CHR '' ''" "''Bearer''" tok] by (simp add: split_no_sep)

lemma split_two:
  assumes "split c s = [a, b]"
  shows "s = a @ c # b \<and> c \<notin> set b"
proof -
  have "join [c] (split c s) = s" by (rule join_split)
  with assms have "s = a @ c # b" by simp
  moreover have "b \<in> set (split c s)" using assms by simp
  then have "c \<notin> set b" by (rule split_parts_no_sep)
  ultimately show ?thesis by simp
qed

lemma roleRequired_parts:
  assumes "h \<noteq> []" "split CHR '' '' h = [''Bearer'', tok]" "v tok = Some td"
    "findByPk tbl (tp_id td) = Some u"
  shows "roleRequired r v tbl (Some h) =
           (if x_role u = r then Next td (Some u)
            else Respond 403 False ''You are not authorized to perform this action.'')"
  using assms by (simp add: roleRequired_def Let_def)

lemma roleRequired_Bearer:
  assumes "CHR '' '' \<notin> set tok" "v tok = Some td" "findByPk tbl (tp_id td) = Some u"
  shows "roleRequired r v tbl (Some (''Bearer '' @ tok)) =
           (if x_role u = r then Next td (Some u)
            else Respond 403 False ''You are not authorized to perform this action.'')"
proof -
  have ne: "''Bearer '' @ tok \<noteq> []" by simp
  show ?thesis
    by (rule roleRequired_parts [of "''Bearer '' @ tok" tok v td tbl u r])
       (fact ne, rule split_Bearer, fact assms(1), fact assms(2), fact assms(3))
qed

lemma roleRequired_Next:
  assumes "roleRequired r v tbl hdr = Next td su"
  shows "\<exists>tok u. hdr = Some (''Bearer '' @ tok) \<and> CHR '' '' \<notin> set tok \<and> v tok = Some td
           \<and> findByPk tbl (tp_id td) = Some u \<and> x_role u = r \<and> su = Some u"
proof -
  from assms obtain h where h: "hdr = Some h" "h \<noteq> []"
    by (auto simp: roleRequired_def split: option.splits if_splits)
  let ?parts = "split CHR '' '' h"
  from assms h have len: "length ?parts = 2" and hd: "?parts ! 0 = ''Bearer''"
    by (auto simp: roleRequired_def Let_def split: option.splits if_splits)
  from len obtain a b where ab: "?parts = [a, b]"
    by (cases ?parts; cases "tl ?parts") auto
  with hd have a: "a = ''Bearer''" by simp
  from split_two [OF ab] a have hh: "h = ''Bearer '' @ b" and nb: "CHR '' '' \<notin> set b" by auto
  from assms h ab a obtain u where "v b = Some td" "findByPk tbl (tp_id td) = Some u"
      "x_role u = r" "su = Some u"
    by (auto simp: roleRequired_def Let_def split: option.splits if_splits)
  with h hh nb show ?thesis by blast
qed

text \<open>
  C1. Role-gated access. NestJS: \<open>RolesGuard.canActivate\<close> lets the request through
  exactly when the list of required roles is absent or empty, or the request carries a
  user whose role is a member of the list; in every other case it throws a 403
  \<open>ForbiddenException\<close> and the handler is not invoked. Express: \<open>roleRequired(role)\<close>
  calls \<open>next()\<close> exactly when the bearer token is accepted, the token's user is found
  and that user's role is the required one; for an authenticated user with another role
  it answers 403 and does not call \<open>next()\<close>.
\<close>

theorem role_gated_access:
  "(canActivate requiredRoles user = Inr True \<longleftrightarrow>
      (case requiredRoles of
         None \<Rightarrow> True
       | Some rs \<Rightarrow> rs = [] \<or> (case user of None \<Rightarrow> False | Some u \<Rightarrow> role u \<in> set rs)))
   \<and> (canActivate requiredRoles user \<noteq> Inr True \<longrightarrow>
        (\<exists>m. canActivate requiredRoles user = Inl (ForbiddenException m)
           \<and> getStatus (ForbiddenException m) = Some 403
           \<and> guarded (canActivate requiredRoles user) handler = (Inl (ForbiddenException m), 0)))
   \<and> (canActivate requiredRoles user = Inr True \<longrightarrow>
        guarded (canActivate requiredRoles user) handler = (Inr handler, 1))
   \<and> ((\<exists>td su. roleRequired r v tbl hdr = Next td su) \<longleftrightarrow>
        (\<exists>tok td u. hdr = Some (''Bearer '' @ tok) \<and> CHR '' '' \<notin> set tok \<and> v tok = Some td
           \<and> findByPk tbl (tp_id td) = Some u \<and> x_role u \<in> set [r]))
   \<and> (CHR '' '' \<notin> set tok \<and> v tok = Some td \<and> findByPk tbl (tp_id td) = Some u
        \<and> x_role u \<notin> set [r] \<longrightarrow>
        roleRequired r v tbl (Some (''Bearer '' @ tok)) =
          Respond 403 False ''You are not authorized to perform this action.'')"
proof -
  have n1: "canActivate requiredRoles user = Inr True \<longleftrightarrow>
      (case requiredRoles of
         None \<Rightarrow> True
       | Some rs \<Rightarrow> rs = [] \<or> (case user of None \<Rightarrow> False | Some u \<Rightarrow> role u \<in> set rs))"
    by (rule canActivate_permits)
  have n2: "canActivate requiredRoles user \<noteq> Inr True \<longrightarrow>
        (\<exists>m. canActivate requiredRoles user = Inl (ForbiddenException m)
           \<and> getStatus (ForbiddenException m) = Some 403
           \<and> guarded (canActivate requiredRoles user) handler = (Inl (ForbiddenException m), 0))"
    using canActivate_cases [of requiredRoles user]
    by (auto simp: guarded_def ForbiddenException_def)
  have n3: "canActivate requiredRoles user = Inr True \<longrightarrow>
        guarded (canActivate requiredRoles user) handler = (Inr handler, 1)"
    by (simp add: guarded_def)
  have e1: "(\<exists>td su. roleRequired r v tbl hdr = Next td su) \<longleftrightarrow>
        (\<exists>tok td u. hdr = Some (''Bearer '' @ tok) \<and> CHR '' '' \<notin> set tok \<and> v tok = Some td
           \<and> findByPk tbl (tp_id td) = Some u \<and> x_role u \<in> set [r])"
  proof
    assume "\<exists>td su. roleRequired r v tbl hdr = Next td su"
    then obtain td su where "roleRequired r v tbl hdr = Next td su" by blast
    from roleRequired_Next [OF this] show "\<exists>tok td u. hdr = Some (''Bearer '' @ tok)
        \<and> CHR '' '' \<notin> set tok \<and> v tok = Some td
        \<and> findByPk tbl (tp_id td) = Some u \<and> x_role u \<in> set [r]"
      by auto
  next
    assume "\<exists>tok td u. hdr = Some (''Bearer '' @ tok) \<and> CHR '' '' \<notin> set tok \<and> v tok = Some td
           \<and> findByPk tbl (tp_id td) = Some u \<and> x_role u \<in> set [r]"
    then obtain tok td u where "hdr = Some (''Bearer '' @ tok)" "CHR '' '' \<notin> set tok"
        "v tok = Some td" "findByPk tbl (tp_id td) = Some u" "x_role u = r"
      by auto
    then have "roleRequired r v tbl hdr = Next td (Some u)"
      using roleRequired_Bearer [of tok v td tbl u r] by simp
    then show "\<exists>td su. roleRequired r v tbl hdr = Next td su" by blast
  qed
  have e2: "CHR '' '' \<notin> set tok \<and> v tok = Some td \<and> findByPk tbl (tp_id td) = Some u
        \<and> x_role u \<notin> set [r] \<longrightarrow>
        roleRequired r v tbl (Some (''Bearer '' @ tok)) =
          Respond 403 False ''You are not authorized to perform this action.''"
    using roleRequired_Bearer [of tok v td tbl u r] by auto
  from n1 n2 n3 e1 e2 show ?thesis by blast
qed

theorem role_gated_access_witness:
  "canActivate (Some [''admin'']) (Some ann) \<noteq> Inr True
   \<and> canActivate (Some [''admin'']) (Some ann)
       = Inl (ForbiddenException ''Access denied. Required roles: admin'')
   \<and> guarded (canActivate (Some [''admin'']) (Some ann)) ()
       = (Inl (ForbiddenException ''Access denied. Required roles: admin''), 0)
   \<and> canActivate (Some [''admin'', ''user'']) (Some ann) = Inr True
   \<and> guarded (canActivate (Some [''admin'', ''user'']) (Some ann)) () = (Inr (), 1)
   \<and> x_role x_ann \<notin> set [''admin'']
   \<and> roleRequired ''admin'' accept_t1 x_two_users (Some (''Bearer '' @ ''t1''))
       = Respond 403 False ''You are not authorized to perform this action.''"
proof -
  have deny: "canActivate (Some [''admin'']) (Some ann) \<noteq> Inr True"
    by (subst role_gated_access [where requiredRoles = "Some [''admin'']" and user = "Some ann",
          THEN conjunct1])
       (simp add: ann_def)
  have msg: "canActivate (Some [''admin'']) (Some ann)
       = Inl (ForbiddenException ''Access denied. Required roles: admin'')"
    by (simp add: canActivate_def ann_def)
  have g0: "guarded (canActivate (Some [''admin'']) (Some ann)) ()
       = (Inl (ForbiddenException ''Access denied. Required roles: admin''), 0)"
    by (simp add: msg guarded_def)
  have allow: "canActivate (Some [''admin'', ''user'']) (Some ann) = Inr True"
    by (subst role_gated_access [where requiredRoles = "Some [''admin'', ''user'']"
          and user = "Some ann", THEN conjunct1])
       (simp add: ann_def)
  have g1: "guarded (canActivate (Some [''admin'', ''user'']) (Some ann)) () = (Inr (), 1)"
    by (rule mp [OF role_gated_access [where requiredRoles = "Some [''admin'', ''user'']"
          and user = "Some ann" and handler = "()",
          THEN conjunct2, THEN conjunct2, THEN conjunct1] allow])
  have role: "x_role x_ann \<notin> set [''admin'']"
    by (simp add: x_ann_def)
  have hyp: "CHR '' '' \<notin> set ''t1'' \<and> accept_t1 ''t1'' = Some \<lparr>tp_id = 1, tp_role = ''user''\<rparr>
      \<and> findByPk x_two_users (tp_id \<lparr>tp_id = 1, tp_role = ''user''\<rparr>) = Some x_ann
      \<and> x_role x_ann \<notin> set [''admin'']"
    by (simp add: accept_t1_def findByPk_def x_two_users_def x_ann_def)
  have e403: "roleRequired ''admin'' accept_t1 x_two_users (Some (''Bearer '' @ ''t1''))
       = Respond 403 False ''You are not authorized to perform this action.''"
    by (rule mp [OF role_gated_access [where r = "''admin''" and v = accept_t1
          and tbl = x_two_users and tok = "''t1''" and td = "\<lparr>tp_id = 1, tp_role = ''user''\<rparr>"
          and u = x_ann,
          THEN conjunct2, THEN conjunct2, THEN conjunct2, THEN conjunct2] hyp])
  from deny msg g0 allow g1 role e403 show ?thesis by blast
qed

section \<open>Email uniqueness\<close>

subsection \<open>NestJS\<close>

lemma UsersService_create_cases:
  "UsersService_create hash now repo dto =
     (if \<exists>u\<in>set (rows repo). deletedAt u = None \<and> email u = c_email dto
      then (Inl (ConflictException ''Email already exists''), repo)
      else save_new now repo (dto\<lparr>c_password := hash (c_password dto)\<rparr>))"
  by (auto simp: UsersService_create_def findOne_where_email_def find_None_iff Let_def
           split: option.splits dest!: find_Some_set)

lemma save_new_cases:
  "save_new now repo dto = (Inl unique_violation, repo)
   \<or> (\<exists>user. save_new now repo dto = (Inr user, repo\<lparr>rows := rows repo @ [user], next_id := Suc (next_id repo)\<rparr>)
        \<and> user_id user = next_id repo \<and> email user = c_email dto
        \<and> c_email dto \<notin> set (map email (rows repo)))"
  by (auto simp: save_new_def Let_def list_ex_iff)

lemma UsersService_create_error_unchanged:
  "fst (UsersService_create hash now repo dto) = Inl e \<Longrightarrow>
     snd (UsersService_create hash now repo dto) = repo"
  using save_new_cases [of now repo "dto\<lparr>c_password := hash (c_password dto)\<rparr>"]
  by (auto simp: UsersService_create_cases split: if_splits)



lemma user_id_Object_assign [simp]: "user_id (Object_assign u d) = user_id u"
  by (simp add: Object_assign_def)













subsection \<open>Express\<close>

lemma User_create_cases:
  "(\<exists>e. User_create ie now tbl data = (Inl e, tbl))
   \<or> (\<exists>user. User_create ie now tbl data
                = (Inr user, tbl\<lparr>x_rows := x_rows tbl @ [user], x_next_id := Suc (x_next_id tbl)\<rparr>)
        \<and> x_id user = x_next_id tbl \<and> x_email user = xc_email data
        \<and> x_role user = ''user''
        \<and> xc_email data \<notin> set (map x_email (x_rows tbl)))"
  by (auto simp: User_create_def Let_def list_ex_iff)

lemma UserRepository_create_cases:
  "(\<exists>m. UserRepository_create ie now tbl data = (Inl (DatabaseError m), tbl))
   \<or> (\<exists>user. UserRepository_create ie now tbl data
                = (Inr user, tbl\<lparr>x_rows := x_rows tbl @ [user], x_next_id := Suc (x_next_id tbl)\<rparr>)
        \<and> x_id user = x_next_id tbl \<and> x_email user = xc_email data
        \<and> x_role user = ''user''
        \<and> xc_email data \<notin> set (map x_email (x_rows tbl)))"
  using User_create_cases [of ie now tbl data]
  by (auto simp: UserRepository_create_def)

lemma UserService_createUser_cases:
  "UserService_createUser ie now tbl data =
     (if \<exists>u\<in>set (x_rows tbl). x_deletedAt u = None \<and> x_email u = xc_email data
      then (Inl (AppError ''User with this email already exists'' 409), tbl)
      else UserRepository_create ie now tbl data)"
  by (auto simp: UserService_createUser_def UserRepository_findByEmail_def
        User_findOne_where_email_def find_None_iff split: option.splits dest!: find_Some_set)

lemma UserService_createUser_error_unchanged:
  "fst (UserService_createUser ie now tbl data) = Inl e \<Longrightarrow>
     snd (UserService_createUser ie now tbl data) = tbl"
  using UserRepository_create_cases [of ie now tbl data]
  by (auto simp: UserService_createUser_cases split: if_splits)


lemma x_id_set_values [simp]: "x_id (set_values u d) = x_id u"
  by (simp add: set_values_def)

lemma User_update_cases:
  "snd (User_update ie now tbl user data) = tbl
   \<or> (snd (User_update ie now tbl user data)
         = tbl\<lparr>x_rows := map (\<lambda>u. if x_id u = x_id user then (set_values user data)\<lparr>x_updatedAt := now\<rparr> else u)
                            (x_rows tbl)\<rparr>
       \<and> \<not> list_ex (\<lambda>u. x_id u \<noteq> x_id user \<and> x_email u = x_email (set_values user data)) (x_rows tbl))"
  by (auto simp: User_update_def Let_def)






















section \<open>Login\<close>

lemma findByEmail_None:
  "UsersService_findByEmail repo e = None
     \<longleftrightarrow> \<not> (\<exists>u\<in>set (rows repo). deletedAt u = None \<and> email u = e)"
  by (auto simp: UsersService_findByEmail_def find_None_iff)

lemma findByEmail_Some:
  "UsersService_findByEmail repo e = Some u \<Longrightarrow> u \<in> set (rows repo) \<and> deletedAt u = None \<and> email u = e"
  by (auto simp: UsersService_findByEmail_def dest!: find_Some_set)

lemma findByEmail_unique:
  assumes "consistent repo" "u \<in> set (rows repo)" "deletedAt u = None" "email u = e"
  shows "UsersService_findByEmail repo e = Some u"
proof -
  from assms(2-4) obtain v where v: "UsersService_findByEmail repo e = Some v"
    by (cases "UsersService_findByEmail repo e") (auto simp: findByEmail_None)
  from findByEmail_Some [OF v] assms have "v = u"
    by (auto simp: consistent_def distinct_map inj_on_def)
  with v show ?thesis by simp
qed

lemma UnauthorizedException_401: "\<exists>r. UnauthorizedException m = HttpException 401 r"
  by (simp add: UnauthorizedException_def)

lemma login_cases:
  "AuthService_login sign ttl compare now repo dto =
     (case UsersService_findByEmail repo (l_email dto) of
        None \<Rightarrow> (Inl (UnauthorizedException ''Invalid credentials''), repo)
      | Some u \<Rightarrow>
          if \<not> isActive u then (Inl (UnauthorizedException ''Account is deactivated''), repo)
          else if \<not> compare (l_password dto) (password u)
          then (Inl (UnauthorizedException ''Invalid credentials''), repo)
          else (Inr (generateAuthResponse sign ttl u), update_lastLoginAt now repo (user_id u)))"
  by (simp add: AuthService_login_def Let_def UsersService_updateLastLogin_def split: option.splits)

text \<open>
  C3. Login is hash-compare then sign. \<open>AuthService.login\<close> raises a 401 exactly when
  the lookup by email finds no user, or the user found is not active, or \<open>bcrypt.compare\<close>
  of the submitted password with the stored hash fails; it raises nothing else, and the
  table is then unchanged. Otherwise it returns the response whose \<open>accessToken\<close> is the
  signature of the payload carrying the user's id, email and role, with \<open>tokenType\<close>
  \<open>Bearer\<close>, and records the login time on that user's row. The users the lookup
  finds are the rows that are not soft-deleted: it finds none exactly when no such row
  has the email, and in a consistent table it finds the one that has it.
\<close>

theorem login_hash_compare_then_sign:
  "((\<exists>r. fst (AuthService_login sign ttl compare now repo dto) = Inl (HttpException 401 r))
      \<longleftrightarrow> (case UsersService_findByEmail repo (l_email dto) of
             None \<Rightarrow> True
           | Some u \<Rightarrow> \<not> isActive u \<or> \<not> compare (l_password dto) (password u)))
   \<and> (UsersService_findByEmail repo (l_email dto) = None
        \<longleftrightarrow> \<not> (\<exists>u\<in>set (rows repo). deletedAt u = None \<and> email u = l_email dto))
   \<and> (consistent repo \<and> u \<in> set (rows repo) \<and> deletedAt u = None \<and> email u = l_email dto
        \<longrightarrow> UsersService_findByEmail repo (l_email dto) = Some u)
   \<and> ((\<exists>e. fst (AuthService_login sign ttl compare now repo dto) = Inl e)
        \<longrightarrow> (\<exists>r. fst (AuthService_login sign ttl compare now repo dto) = Inl (HttpException 401 r))
            \<and> snd (AuthService_login sign ttl compare now repo dto) = repo)
   \<and> (UsersService_findByEmail repo (l_email dto) = Some u \<and> isActive u
        \<and> compare (l_password dto) (password u)
        \<longrightarrow> (\<exists>a. AuthService_login sign ttl compare now repo dto
                    = (Inr a, update_lastLoginAt now repo (user_id u))
                \<and> accessToken a = sign \<lparr>sub = user_id u, jwt_email = email u, jwt_role = role u\<rparr>
                \<and> tokenType a = ''Bearer''
                \<and> auth_user a = plainToInstance u))"
proof -
  have a: "(\<exists>r. fst (AuthService_login sign ttl compare now repo dto) = Inl (HttpException 401 r))
      \<longleftrightarrow> (case UsersService_findByEmail repo (l_email dto) of
             None \<Rightarrow> True
           | Some u \<Rightarrow> \<not> isActive u \<or> \<not> compare (l_password dto) (password u))"
    by (auto simp: login_cases UnauthorizedException_def split: option.splits)
  have b: "UsersService_findByEmail repo (l_email dto) = None
        \<longleftrightarrow> \<not> (\<exists>u\<in>set (rows repo). deletedAt u = None \<and> email u = l_email dto)"
    by (rule findByEmail_None)
  have c: "consistent repo \<and> u \<in> set (rows repo) \<and> deletedAt u = None \<and> email u = l_email dto
        \<longrightarrow> UsersService_findByEmail repo (l_email dto) = Some u"
    using findByEmail_unique by blast
  have d: "(\<exists>e. fst (AuthService_login sign ttl compare now repo dto) = Inl e)
        \<longrightarrow> (\<exists>r. fst (AuthService_login sign ttl compare now repo dto) = Inl (HttpException 401 r))
            \<and> snd (AuthService_login sign ttl compare now repo dto) = repo"
    by (auto simp: login_cases UnauthorizedException_def split: option.splits if_splits)
  have e: "UsersService_findByEmail repo (l_email dto) = Some u \<and> isActive u
        \<and> compare (l_password dto) (password u)
        \<longrightarrow> (\<exists>a. AuthService_login sign ttl compare now repo dto
                    = (Inr a, update_lastLoginAt now repo (user_id u))
                \<and> accessToken a = sign \<lparr>sub = user_id u, jwt_email = email u, jwt_role = role u\<rparr>
                \<and> tokenType a = ''Bearer''
                \<and> auth_user a = plainToInstance u)"
    by (auto simp: login_cases generateAuthResponse_def Let_def)
  from a b c d e show ?thesis by blast
qed

theorem login_hash_compare_then_sign_witness:
  "UsersService_findByEmail two_users (l_email ann_login) = Some ann
   \<and> isActive ann \<and> toy_compare (l_password ann_login) (password ann)
   \<and> (\<exists>a. AuthService_login toy_sign None toy_compare 50 two_users ann_login
              = (Inr a, update_lastLoginAt 50 two_users (user_id ann))
          \<and> accessToken a = ''jwt.1.user'' \<and> tokenType a = ''Bearer''
          \<and> auth_user a = plainToInstance ann)"
proof -
  have h: "UsersService_findByEmail two_users (l_email ann_login) = Some ann
      \<and> isActive ann \<and> toy_compare (l_password ann_login) (password ann)"
    by (simp add: UsersService_findByEmail_def two_users_def ann_def ann_login_def toy_compare_def
        toy_hash_def)
  have s: "toy_sign \<lparr>sub = user_id ann, jwt_email = email ann, jwt_role = role ann\<rparr> = ''jwt.1.user''"
    by (simp add: toy_sign_def ann_def digit_def)
  from login_hash_compare_then_sign [where sign = toy_sign and ttl = None and compare = toy_compare
      and now = 50 and repo = two_users and dto = ann_login and u = ann] h
  have "\<exists>a. AuthService_login toy_sign None toy_compare 50 two_users ann_login
              = (Inr a, update_lastLoginAt 50 two_users (user_id ann))
          \<and> accessToken a = toy_sign \<lparr>sub = user_id ann, jwt_email = email ann, jwt_role = role ann\<rparr>
          \<and> tokenType a = ''Bearer'' \<and> auth_user a = plainToInstance ann"
    by blast
  with h s show ?thesis by simp
qed



section \<open>Pagination\<close>






lemma order_by_default: "\<exists>ordered. order_by ''createdAt'' ''DESC'' us = Inr ordered"
  by (simp add: order_by_def column_order_def)














section \<open>Errors to HTTP responses\<close>










section \<open>The response envelope\<close>































section \<open>Roles\<close>

lemma IsEnum_UserRole_iff: "IsEnum_UserRole v \<longleftrightarrow> v \<in> {''admin'', ''user'', ''manager''}"
  by (auto simp: IsEnum_UserRole_def)

lemma optional_errors_Nil:
  "optional_errors p v (\<lambda>x. [(ok x, m)]) = [] \<longleftrightarrow> (case v of None \<Rightarrow> True | Some x \<Rightarrow> ok x)"
  by (auto simp: optional_errors_def property_errors_def Let_def split: option.splits)

lemma pipe_Create_role:
  "ValidationPipe_transform (validate_CreateUserDto ie dto) dto = Inr d \<Longrightarrow>
     d = dto \<and> (case c_role dto of None \<Rightarrow> True | Some r \<Rightarrow> IsEnum_UserRole r)"
  by (auto simp: ValidationPipe_transform_def validate_CreateUserDto_def optional_errors_Nil
           split: if_splits)

lemma pipe_Update_role:
  "ValidationPipe_transform (validate_UpdateUserDto ie dto) dto = Inr d \<Longrightarrow>
     d = dto \<and> (case u_role dto of None \<Rightarrow> True | Some r \<Rightarrow> IsEnum_UserRole r)"
  by (auto simp: ValidationPipe_transform_def validate_UpdateUserDto_def optional_errors_Nil
           split: if_splits)

lemma save_new_role:
  "save_new now repo dto = (Inr user, repo') \<Longrightarrow>
     repo' = repo\<lparr>rows := rows repo @ [user], next_id := Suc (next_id repo)\<rparr>
     \<and> role user = (case c_role dto of None \<Rightarrow> ''user'' | Some r \<Rightarrow> r)"
  by (auto simp: save_new_def Let_def split: if_splits option.splits)

lemma create_role:
  assumes "UsersService_create h now repo dto = (Inr user, repo')"
  shows "repo' = repo\<lparr>rows := rows repo @ [user], next_id := Suc (next_id repo)\<rparr>
     \<and> role user = (case c_role dto of None \<Rightarrow> ''user'' | Some r \<Rightarrow> r)"
proof -
  from assms have "save_new now repo (dto\<lparr>c_password := h (c_password dto)\<rparr>) = (Inr user, repo')"
    by (auto simp: UsersService_create_cases split: if_splits)
  from save_new_role [OF this] show ?thesis by simp
qed

lemma create_error_unchanged:
  "UsersService_create h now repo dto = (Inl e, repo') \<Longrightarrow> repo' = repo"
  using UsersService_create_error_unchanged [of h now repo dto e] by simp

lemma roles_valid_create:
  assumes "roles_valid repo" "case c_role dto of None \<Rightarrow> True | Some r \<Rightarrow> IsEnum_UserRole r"
  shows "roles_valid (snd (UsersService_create h now repo dto))"
proof (cases "UsersService_create h now repo dto")
  case (Pair r repo')
  show ?thesis
  proof (cases r)
    case (Inl e)
    with Pair create_error_unchanged [of h now repo dto e repo'] assms show ?thesis by simp
  next
    case (Inr user)
    with Pair create_role [of h now repo dto user repo'] assms show ?thesis
      by (auto simp: roles_valid_def IsEnum_UserRole_iff split: option.splits)
  qed
qed

lemma roles_valid_touch:
  assumes "roles_valid repo" "\<And>u. role (f u) = role u"
  shows "roles_valid (repo\<lparr>rows := map (\<lambda>u. if user_id u = i then f u else u) (rows repo)\<rparr>)"
  using assms by (auto simp: roles_valid_def list_all_iff)

lemma roles_valid_softRemove: "roles_valid repo \<Longrightarrow> roles_valid (softRemove now repo user)"
  unfolding softRemove_def by (rule roles_valid_touch) simp_all

lemma roles_valid_update_lastLoginAt:
  "roles_valid repo \<Longrightarrow> roles_valid (update_lastLoginAt now repo i)"
  unfolding update_lastLoginAt_def by (rule roles_valid_touch) simp_all

lemma roles_valid_remove: "roles_valid repo \<Longrightarrow> roles_valid (snd (UsersService_remove now repo i))"
  by (cases "UsersService_findOne repo i")
     (simp_all add: UsersService_remove_def roles_valid_softRemove)

lemma findOne_in_rows: "UsersService_findOne repo i = Inr user \<Longrightarrow> user \<in> set (rows repo)"
  by (auto simp: UsersService_findOne_def findOne_where_id_def split: option.splits
           dest!: find_Some_set)

lemma roles_valid_save_loaded:
  assumes "roles_valid repo" "IsEnum_UserRole (role user)"
  shows "roles_valid (snd (save_loaded now repo loaded user))"
  using assms by (auto simp: save_loaded_def Let_def roles_valid_def list_all_iff)

lemma role_Object_assign:
  "role (Object_assign user d) = (case u_role d of None \<Rightarrow> role user | Some r \<Rightarrow> r)"
  by (simp add: Object_assign_def)

lemma roles_valid_update:
  assumes "roles_valid repo" "case u_role dto of None \<Rightarrow> True | Some r \<Rightarrow> IsEnum_UserRole r"
  shows "roles_valid (snd (UsersService_update h now repo i dto))"
proof (cases "UsersService_findOne repo i")
  case (Inl e)
  with assms show ?thesis by (simp add: UsersService_update_def)
next
  case (Inr user)
  from findOne_in_rows [OF Inr] assms(1) have old: "IsEnum_UserRole (role user)"
    by (auto simp: roles_valid_def list_all_iff)
  have "IsEnum_UserRole (role (Object_assign user d))" if "u_role d = u_role dto" for d
    using that assms(2) old by (auto simp: role_Object_assign split: option.splits)
  then show ?thesis
    using assms(1) Inr
    by (auto simp: UsersService_update_def Let_def intro!: roles_valid_save_loaded)
qed


lemma snd_UsersController_create:
  "snd (UsersController_create h now repo d) = snd (UsersService_create h now repo d)"
  by (cases "UsersService_create h now repo d")
     (auto simp: UsersController_create_def split: sum.splits)

lemma snd_UsersController_update:
  "snd (UsersController_update h now repo i d) = snd (UsersService_update h now repo i d)"
  by (cases "UsersService_update h now repo i d")
     (auto simp: UsersController_update_def split: sum.splits)

lemma snd_UsersController_remove:
  "snd (UsersController_remove now repo i) = snd (UsersService_remove now repo i)"
  by (cases "UsersService_remove now repo i")
     (auto simp: UsersController_remove_def split: sum.splits)

lemma snd_AuthController_register:
  "snd (AuthController_register s t h now repo d) = snd (AuthService_register s t h now repo d)"
  by (cases "AuthService_register s t h now repo d")
     (auto simp: AuthController_register_def split: sum.splits)

lemma snd_AuthController_login:
  "snd (AuthController_login s t c now repo d) = snd (AuthService_login s t c now repo d)"
  by (cases "AuthService_login s t c now repo d")
     (auto simp: AuthController_login_def split: sum.splits)

lemma roles_valid_register:
  assumes "roles_valid repo"
  shows "roles_valid (snd (AuthService_register s t h now repo d))"
proof -
  let ?dto = "\<lparr>c_firstName = g_firstName d, c_lastName = g_lastName d, c_email = g_email d,
               c_password = g_password d, c_role = None\<rparr>"
  have v: "roles_valid (snd (UsersService_create h now repo ?dto))"
    using assms by (rule roles_valid_create) simp
  obtain r repo' where c: "UsersService_create h now repo ?dto = (r, repo')"
    by (cases "UsersService_create h now repo ?dto")
  with v have "roles_valid repo'" by simp
  with c show ?thesis
    by (cases r)
       (simp_all add: AuthService_register_def Let_def UsersService_updateLastLogin_def
          roles_valid_update_lastLoginAt)
qed

lemma roles_valid_login:
  "roles_valid repo \<Longrightarrow> roles_valid (snd (AuthService_login s t c now repo d))"
  by (auto simp: login_cases roles_valid_update_lastLoginAt split: option.splits)

lemma roles_valid_route:
  assumes "roles_valid repo"
  shows "roles_valid (snd (route env now repo req))"
proof (cases req)
  case (POST_users dto)
  show ?thesis
  proof (cases "ValidationPipe_transform (validate_CreateUserDto (isEmail env) dto) dto")
    case (Inl e)
    with POST_users assms show ?thesis by simp
  next
    case (Inr d)
    from pipe_Create_role [OF Inr] POST_users Inr assms show ?thesis
      by (simp add: snd_UsersController_create roles_valid_create)
  qed
next
  case (GET_users q)
  with assms show ?thesis by (simp split: sum.splits)
next
  case (GET_users_me user)
  with assms show ?thesis by simp
next
  case (GET_users_id i)
  with assms show ?thesis by simp
next
  case (PUT_users i dto)
  show ?thesis
  proof (cases "ValidationPipe_transform (validate_UpdateUserDto (isEmail env) dto) dto")
    case (Inl e)
    with PUT_users assms show ?thesis by simp
  next
    case (Inr d)
    from pipe_Update_role [OF Inr] PUT_users Inr assms show ?thesis
      by (simp add: snd_UsersController_update roles_valid_update)
  qed
next
  case (DELETE_users i)
  with assms show ?thesis by (simp add: snd_UsersController_remove roles_valid_remove)
next
  case (POST_auth_register dto)
  with assms show ?thesis
    by (simp add: snd_AuthController_register roles_valid_register split: sum.splits)
next
  case (POST_auth_login dto)
  with assms show ?thesis
    by (simp add: snd_AuthController_login roles_valid_login split: sum.splits)
next
  case (GET_health status info error details)
  with assms show ?thesis by simp
qed

lemma roles_valid_serve: "roles_valid repo \<Longrightarrow> roles_valid (serve env repo reqs)"
  by (induction reqs arbitrary: repo) (auto simp: roles_valid_route)

lemma roles_valid_empty: "roles_valid empty_Repository"
  by (simp add: roles_valid_def empty_Repository_def)

subsection \<open>Express\<close>

lemma x_role_set_values [simp]: "x_role (set_values u d) = x_role u"
  by (simp add: set_values_def)

lemma x_createUser_role:
  assumes "UserService_createUser ie now tbl data = (Inr user, tbl')"
  shows "x_role user = ''user'' \<and> x_rows tbl' = x_rows tbl @ [user]"
  using assms UserRepository_create_cases [of ie now tbl data]
  by (auto simp: UserService_createUser_cases split: if_splits)

lemma x_roles_create:
  assumes "''user'' \<in> S" "\<forall>u\<in>set (x_rows tbl). x_role u \<in> S"
  shows "\<forall>u\<in>set (x_rows (snd (UserService_createUser ie now tbl data))). x_role u \<in> S"
proof (cases "UserService_createUser ie now tbl data")
  case (Pair r tbl')
  show ?thesis
  proof (cases r)
    case (Inl e)
    with Pair UserService_createUser_error_unchanged [of ie now tbl data e] assms
    show ?thesis by simp
  next
    case (Inr user)
    with Pair x_createUser_role [of ie now tbl data user tbl'] assms show ?thesis by auto
  qed
qed

lemma findById_in_rows: "UserRepository_findById tbl i = Inr user \<Longrightarrow> user \<in> set (x_rows tbl)"
  by (auto simp: UserRepository_findById_def findByPk_def split: option.splits dest!: find_Some_set)

lemma x_roles_User_update:
  assumes "\<forall>u\<in>set (x_rows tbl). x_role u \<in> S" "user \<in> set (x_rows tbl)"
  shows "\<forall>u\<in>set (x_rows (snd (User_update ie now tbl user data))). x_role u \<in> S"
  using assms User_update_cases [of ie now tbl user data] by auto

lemma x_roles_update:
  assumes "\<forall>u\<in>set (x_rows tbl). x_role u \<in> S"
  shows "\<forall>u\<in>set (x_rows (snd (UserService_updateUser ie now tbl i data))). x_role u \<in> S"
proof (cases "UserRepository_findById tbl i")
  case (Inl e)
  with assms show ?thesis
    by (simp add: UserService_updateUser_def UserRepository_update_def)
next
  case (Inr user)
  obtain r t where ut: "User_update ie now tbl user data = (r, t)"
    by (cases "User_update ie now tbl user data")
  with Inr have "snd (UserRepository_update ie now tbl i data) = t"
    by (cases r) (simp_all add: UserRepository_update_def)
  moreover from x_roles_User_update [OF assms findById_in_rows [OF Inr], of ie now data] ut
  have "\<forall>u\<in>set (x_rows t). x_role u \<in> S" by simp
  ultimately show ?thesis
    using assms by (simp add: UserService_updateUser_def)
qed

lemma x_roles_delete:
  assumes "\<forall>u\<in>set (x_rows tbl). x_role u \<in> S"
  shows "\<forall>u\<in>set (x_rows (snd (UserService_deleteUser now tbl i))). x_role u \<in> S"
  using assms
  by (cases "UserRepository_findById tbl i")
     (auto simp: UserService_deleteUser_def UserRepository_delete_def User_destroy_def)

lemma x_roles_perform:
  assumes "''user'' \<in> S" "\<forall>u\<in>set (x_rows tbl). x_role u \<in> S"
  shows "\<forall>u\<in>set (x_rows (x_perform ie now tbl op)). x_role u \<in> S"
proof (cases op)
  case (CreateUser data)
  with x_roles_create [OF assms, of ie now data] show ?thesis by simp
next
  case (UpdateUser i data)
  with x_roles_update [OF assms(2), of ie now i data] show ?thesis by simp
next
  case (DeleteUser i)
  with x_roles_delete [OF assms(2), of now i] show ?thesis by simp
qed

lemma x_roles_perform_all:
  assumes "''user'' \<in> S" "\<forall>u\<in>set (x_rows tbl). x_role u \<in> S"
  shows "\<forall>u\<in>set (x_rows (x_perform_all ie tbl ops)). x_role u \<in> S"
  using assms(2)
proof (induction ops arbitrary: tbl)
  case Nil
  then show ?case by simp
next
  case (Cons a ops)
  obtain now op where a: "a = (now, op)" by (cases a)
  from x_roles_perform [OF assms(1) Cons.prems, of ie now op]
  have "\<forall>u\<in>set (x_rows (x_perform ie now tbl op)). x_role u \<in> S" .
  from Cons.IH [OF this] a show ?case by simp
qed

text \<open>
  C7. Role enum membership. NestJS: every request goes through the validation pipe, whose
  \<open>@IsEnum(UserRole)\<close> refuses any other role, so whatever sequence of requests is served,
  a table whose roles are values of the enum keeps only such roles, and a table that
  started empty has only such roles; a user created without a role gets \<open>user\<close>. Express:
  no operation of the service sets a role, so every user it creates has the role
  \<open>user\<close>, a table whose roles are \<open>admin\<close> or \<open>user\<close> (the model's enum, two of the three
  values) keeps only those, and a table that started empty holds the role \<open>user\<close> only.
\<close>

theorem role_enum_membership:
  "(roles_valid repo
      \<longrightarrow> (\<forall>u\<in>set (rows (serve env repo reqs)). role u \<in> {''admin'', ''user'', ''manager''}))
   \<and> (\<forall>u\<in>set (rows (serve env empty_Repository reqs)). role u \<in> {''admin'', ''user'', ''manager''})
   \<and> (UsersService_create h now repo dto = (Inr user, repo') \<and> c_role dto = None
      \<longrightarrow> role user = ''user'' \<and> rows repo' = rows repo @ [user])
   \<and> (x_roles_valid tbl
      \<longrightarrow> (\<forall>u\<in>set (x_rows (x_perform_all ie tbl xops)).
             x_role u \<in> {''admin'', ''user''} \<and> x_role u \<in> {''admin'', ''user'', ''manager''}))
   \<and> (\<forall>u\<in>set (x_rows (x_perform_all ie empty_Table xops)). x_role u = ''user'')
   \<and> (UserService_createUser ie now tbl xdto = (Inr xuser, tbl')
      \<longrightarrow> x_role xuser = ''user'' \<and> x_rows tbl' = x_rows tbl @ [xuser])"
proof -
  have sub: "v \<in> {''admin'', ''user''} \<Longrightarrow> v \<in> {''admin'', ''user'', ''manager''}" for v :: string
    by blast
  have n: "roles_valid r \<longrightarrow> (\<forall>u\<in>set (rows (serve env r reqs)). role u \<in> {''admin'', ''user'', ''manager''})"
    for r
  proof
    assume "roles_valid r"
    then have "roles_valid (serve env r reqs)" by (rule roles_valid_serve)
    then show "\<forall>u\<in>set (rows (serve env r reqs)). role u \<in> {''admin'', ''user'', ''manager''}"
      unfolding roles_valid_def list_all_iff IsEnum_UserRole_iff .
  qed
  have c: "UsersService_create h now repo dto = (Inr user, repo') \<and> c_role dto = None
      \<longrightarrow> role user = ''user'' \<and> rows repo' = rows repo @ [user]"
  proof
    assume a: "UsersService_create h now repo dto = (Inr user, repo') \<and> c_role dto = None"
    with create_role [of h now repo dto user repo']
    show "role user = ''user'' \<and> rows repo' = rows repo @ [user]" by simp
  qed
  have x: "x_roles_valid tbl
      \<longrightarrow> (\<forall>u\<in>set (x_rows (x_perform_all ie tbl xops)).
             x_role u \<in> {''admin'', ''user''} \<and> x_role u \<in> {''admin'', ''user'', ''manager''})"
  proof
    assume "x_roles_valid tbl"
    then have "\<forall>u\<in>set (x_rows tbl). x_role u \<in> {''admin'', ''user''}"
      unfolding x_roles_valid_def list_all_iff by simp
    moreover have "''user'' \<in> {''admin'', ''user''}" by simp
    ultimately have "\<forall>u\<in>set (x_rows (x_perform_all ie tbl xops)). x_role u \<in> {''admin'', ''user''}"
      by (rule x_roles_perform_all [rotated])
    with sub show "\<forall>u\<in>set (x_rows (x_perform_all ie tbl xops)).
             x_role u \<in> {''admin'', ''user''} \<and> x_role u \<in> {''admin'', ''user'', ''manager''}"
      by blast
  qed
  have y: "\<forall>u\<in>set (x_rows (x_perform_all ie empty_Table xops)). x_role u = ''user''"
  proof -
    have "\<forall>u\<in>set (x_rows empty_Table). x_role u \<in> {''user''}" by (simp add: empty_Table_def)
    moreover have "''user'' \<in> {''user''}" by simp
    ultimately have "\<forall>u\<in>set (x_rows (x_perform_all ie empty_Table xops)). x_role u \<in> {''user''}"
      by (rule x_roles_perform_all [rotated])
    then show ?thesis by blast
  qed
  have z: "UserService_createUser ie now tbl xdto = (Inr xuser, tbl')
      \<longrightarrow> x_role xuser = ''user'' \<and> x_rows tbl' = x_rows tbl @ [xuser]"
    using x_createUser_role by blast
  have n0: "\<forall>u\<in>set (rows (serve env empty_Repository reqs)). role u \<in> {''admin'', ''user'', ''manager''}"
    using n [of empty_Repository] roles_valid_empty by (rule mp)
  show ?thesis
    by (intro conjI) (rule n [of repo], rule n0, rule c, rule x, rule y, rule z)
qed


lemma serve_busy_api_day:
  "map role (rows (serve toy_environment two_users busy_api_day)) = [''user'', ''manager'', ''user'']"
  by code_simp


lemma roles_valid_two_users: "roles_valid two_users"
  by (simp add: roles_valid_def two_users_def ann_def bob_def IsEnum_UserRole_def)

lemma x_roles_valid_two_users: "x_roles_valid x_two_users"
  by (simp add: x_roles_valid_def x_two_users_def x_ann_def x_bob_def)

theorem role_enum_membership_witness:
  "roles_valid two_users
   \<and> map role (rows (serve toy_environment two_users busy_api_day)) = [''user'', ''manager'', ''user'']
   \<and> set (map role (rows (serve toy_environment two_users busy_api_day)))
       \<subseteq> {''admin'', ''user'', ''manager''}
   \<and> x_roles_valid x_two_users
   \<and> set (map x_role (x_rows (x_perform_all toy_isEmail x_two_users x_busy_day)))
       \<subseteq> {''admin'', ''user'', ''manager''}
   \<and> set (map x_role (x_rows (x_perform_all toy_isEmail empty_Table x_busy_day))) \<subseteq> {''user''}"
proof -
  note inst = role_enum_membership [where repo = two_users and env = toy_environment
      and reqs = busy_api_day and tbl = x_two_users and ie = toy_isEmail and xops = x_busy_day]
  from inst roles_valid_two_users
  have a: "\<forall>u\<in>set (rows (serve toy_environment two_users busy_api_day)).
      role u \<in> {''admin'', ''user'', ''manager''}"
    by blast
  from inst x_roles_valid_two_users
  have b: "\<forall>u\<in>set (x_rows (x_perform_all toy_isEmail x_two_users x_busy_day)).
      x_role u \<in> {''admin'', ''user'', ''manager''}"
    by blast
  from inst
  have c: "\<forall>u\<in>set (x_rows (x_perform_all toy_isEmail empty_Table x_busy_day)). x_role u = ''user''"
    by blast
  from a have a': "set (map role (rows (serve toy_environment two_users busy_api_day)))
       \<subseteq> {''admin'', ''user'', ''manager''}"
    by (simp only: set_map image_subset_iff)
  from b have b': "set (map x_role (x_rows (x_perform_all toy_isEmail x_two_users x_busy_day)))
       \<subseteq> {''admin'', ''user'', ''manager''}"
    by (simp only: set_map image_subset_iff)
  from c have c': "set (map x_role (x_rows (x_perform_all toy_isEmail empty_Table x_busy_day))) \<subseteq> {''user''}"
    by (simp only: set_map image_subset_iff singleton_iff)
  from roles_valid_two_users serve_busy_api_day a' x_roles_valid_two_users b' c'
  show ?thesis by blast
qed



section \<open>Soft delete\<close>










end
